theory Spec2Isabelle
  imports Main "HOL-Library.Word"
begin

section \<open>Python values and event records\<close>

text \<open>
  The structured logging pipeline of \<^verbatim>\<open>airflow/sdk/log.py\<close> passes an event record
  (structlog's \<^verbatim>\<open>EventDict\<close>, a Python \<^verbatim>\<open>dict\<close>) through a chain of processors.
  A Python dict keeps its keys in insertion order, and the order is what the JSON
  renderer is about, so a record is an association list whose keys are distinct.
  Exceptions are either plain or exception groups carrying their sub-exceptions
  (\<^verbatim>\<open>group.exceptions\<close>).
\<close>

datatype exc = Exc string | ExcGroup string "exc list"

datatype pyval =
    VNone
  | VBool bool
  | VInt int
  | VStr string
  | VBytes "8 word list"
  | VList "pyval list"
  | VTuple "pyval list"
  | VDict "(string \<times> pyval) list"
  | VExc exc
  | VOther string

type_synonym pydict = "(string \<times> pyval) list"

datatype py_error =
    KeyError string
  | ValueError string
  | AttributeError string
  | NameError string

text \<open>
  A lookup \<^verbatim>\<open>d.get(k)\<close> is \<open>map_of d k\<close>. The updates are \<^verbatim>\<open>d[k] = v\<close> (overwrite in
  place, or append a new key at the end), \<^verbatim>\<open>del d[k]\<close> and \<^verbatim>\<open>d.pop(k)\<close> (which raises
  \<^verbatim>\<open>KeyError\<close> on a missing key).
\<close>

fun dict_set :: "string \<Rightarrow> pyval \<Rightarrow> pydict \<Rightarrow> pydict" where
  "dict_set k v [] = [(k, v)]"
| "dict_set k v ((k', v') # ps) =
     (if k = k' then (k, v) # ps else (k', v') # dict_set k v ps)"

definition dict_del :: "string \<Rightarrow> pydict \<Rightarrow> pydict" where
  "dict_del k d = filter (\<lambda>(k', v). k' \<noteq> k) d"

definition dict_pop :: "string \<Rightarrow> pydict \<Rightarrow> py_error + (pyval \<times> pydict)" where
  "dict_pop k d =
     (case map_of d k of
        None \<Rightarrow> Inl (KeyError k)
      | Some v \<Rightarrow> Inr (v, dict_del k d))"

text \<open>\<^verbatim>\<open>isinstance(v, str)\<close> and \<^verbatim>\<open>s.startswith(p)\<close>.\<close>

fun is_str :: "pyval \<Rightarrow> bool" where
  "is_str (VStr s) = True"
| "is_str v = False"

definition startswith :: "string \<Rightarrow> string \<Rightarrow> bool" where
  "startswith s p = (take (length p) s = p)"

text \<open>Python truthiness, as used by \<^verbatim>\<open>if x:\<close> and the walrus tests.\<close>

fun truthy :: "pyval \<Rightarrow> bool" where
  "truthy VNone = False"
| "truthy (VBool b) = b"
| "truthy (VInt i) = (i \<noteq> 0)"
| "truthy (VStr s) = (s \<noteq> [])"
| "truthy (VBytes bs) = (bs \<noteq> [])"
| "truthy (VList xs) = (xs \<noteq> [])"
| "truthy (VTuple xs) = (xs \<noteq> [])"
| "truthy (VDict kvs) = (kvs \<noteq> [])"
| "truthy (VExc e) = True"
| "truthy (VOther s) = True"

section \<open>Field processors\<close>

text \<open>
  \<^verbatim>\<open>
  def redact_jwt(logger, method_name, event_dict):
      for k, v in event_dict.items():
          if isinstance(v, str) and v.startswith("eyJ"):
              event_dict[k] = "eyJ***"
      return event_dict
  \<close>
  The loop walks the items of the record and assigns to the key it is visiting; an
  assignment to an existing key changes neither the size nor the order of the dict, so
  every entry is visited once with the value it had at the start.
\<close>

fun redact_jwt_loop :: "(string \<times> pyval) list \<Rightarrow> pydict \<Rightarrow> pydict" where
  "redact_jwt_loop [] event_dict = event_dict"
| "redact_jwt_loop ((k, v) # items) event_dict =
     redact_jwt_loop items
       (if is_str v \<and> (case v of VStr s \<Rightarrow> startswith s ''eyJ'' | _ \<Rightarrow> False)
        then dict_set k (VStr ''eyJ***'') event_dict
        else event_dict)"

definition redact_jwt :: "pyval \<Rightarrow> pyval \<Rightarrow> pydict \<Rightarrow> pydict" where
  "redact_jwt logger method_name event_dict = redact_jwt_loop event_dict event_dict"

text \<open>
  \<^verbatim>\<open>
  def logger_name(logger, method_name, event_dict):
      if logger_name := event_dict.pop("logger_name", None):
          event_dict.setdefault("logger", logger_name)
      return event_dict

  def drop_positional_args(logger, method_name, event_dict):
      event_dict.pop("positional_args", None)
      return event_dict
  \<close>
\<close>

definition logger_name :: "pyval \<Rightarrow> pyval \<Rightarrow> pydict \<Rightarrow> pydict" where
  "logger_name logger method_name event_dict =
     (let popped = (case map_of event_dict ''logger_name'' of None \<Rightarrow> VNone | Some v \<Rightarrow> v);
          event_dict1 = dict_del ''logger_name'' event_dict
      in if truthy popped
         then (case map_of event_dict1 ''logger'' of
                 None \<Rightarrow> dict_set ''logger'' popped event_dict1
               | Some old \<Rightarrow> event_dict1)
         else event_dict1)"

definition drop_positional_args :: "pyval \<Rightarrow> pyval \<Rightarrow> pydict \<Rightarrow> pydict" where
  "drop_positional_args logger method_name event_dict = dict_del ''positional_args'' event_dict"

text \<open>The per-value effect of \<^verbatim>\<open>redact_jwt\<close>, used to describe the result of its loop.\<close>

definition redact_value :: "pyval \<Rightarrow> pyval" where
  "redact_value v =
     (case v of
        VStr s \<Rightarrow> if startswith s ''eyJ'' then VStr ''eyJ***'' else v
      | _ \<Rightarrow> v)"

section \<open>The JSON serializer of the structured renderer\<close>

text \<open>
  \<^verbatim>\<open>
  def json_dumps(msg, default):
      msg = {
          "timestamp": msg.pop("timestamp"),
          "level": msg.pop("level"),
          "event": msg.pop("event"),
          **msg,
      }
      return msgspec.json.encode(msg, enc_hook=default)
  \<close>
  The three \<^verbatim>\<open>pop\<close>s run in order and each raises \<^verbatim>\<open>KeyError\<close> when its key is
  missing; \<^verbatim>\<open>**msg\<close> then stores what is left of \<^verbatim>\<open>msg\<close>, entry by entry, into the
  new dict. \<^verbatim>\<open>msgspec.json.encode\<close> is a library function: it is the parameter
  \<open>encode\<close>, applied to the re-ordered dict.
\<close>

definition dict_unpack_into :: "pydict \<Rightarrow> pydict \<Rightarrow> pydict" where
  "dict_unpack_into src dst = fold (\<lambda>(k, v) d. dict_set k v d) src dst"

definition json_dumps_reorder :: "pydict \<Rightarrow> py_error + pydict" where
  "json_dumps_reorder msg =
     (case dict_pop ''timestamp'' msg of
        Inl e \<Rightarrow> Inl e
      | Inr (ts, msg1) \<Rightarrow>
          (case dict_pop ''level'' msg1 of
             Inl e \<Rightarrow> Inl e
           | Inr (lvl, msg2) \<Rightarrow>
               (case dict_pop ''event'' msg2 of
                  Inl e \<Rightarrow> Inl e
                | Inr (ev, msg3) \<Rightarrow>
                    Inr (dict_unpack_into msg3
                           [(''timestamp'', ts), (''level'', lvl), (''event'', ev)]))))"

definition json_dumps :: "(pydict \<Rightarrow> 'out) \<Rightarrow> pydict \<Rightarrow> py_error + 'out" where
  "json_dumps encode msg =
     (case json_dumps_reorder msg of
        Inl e \<Rightarrow> Inl e
      | Inr msg' \<Rightarrow> Inr (encode msg'))"

section \<open>The exception-group processor\<close>

text \<open>
  \<^verbatim>\<open>
  def exception_group_tracebacks(format_exception):
      if not hasattr(__builtins__, "BaseExceptionGroup"):
          T = TypeVar("T")
          class BaseExceptionGroup(Generic[T]):
              exceptions: list[T]

      def _exception_group_tracebacks(logger, method_name, event_dict):
          ...
      return _exception_group_tracebacks
  \<close>
  The class statement makes \<^verbatim>\<open>BaseExceptionGroup\<close> a local name of the factory, and the
  processor reads it as a free variable. The result of the \<^verbatim>\<open>hasattr\<close> test is the
  parameter \<open>has_builtin_group\<close>. When it is false the class statement runs and the
  name is the stand-in class, which is made afresh by each call of the factory and
  handed to nobody, so no value is an instance of it. When it is true the class
  statement does not run, the name is never bound, and reading it raises
  \<^verbatim>\<open>NameError\<close>. In neither case does the name mean the builtin class. (In a module
  that is imported, as this one is, \<^verbatim>\<open>__builtins__\<close> is the dict of the builtins module
  and \<^verbatim>\<open>hasattr\<close> of a dict and that name is false.)
\<close>

datatype class_cell = StandInClass | UnboundCell

definition BaseExceptionGroup_cell :: "bool \<Rightarrow> class_cell" where
  "BaseExceptionGroup_cell has_builtin_group =
     (if \<not> has_builtin_group then StandInClass else UnboundCell)"

text \<open>\<^verbatim>\<open>isinstance(v, BaseExceptionGroup)\<close>, as the processor evaluates it.\<close>

definition isinstance_BaseExceptionGroup :: "class_cell \<Rightarrow> pyval \<Rightarrow> py_error + bool" where
  "isinstance_BaseExceptionGroup cell v =
     (case cell of
        UnboundCell \<Rightarrow> Inl (NameError ''BaseExceptionGroup'')
      | StandInClass \<Rightarrow> Inr False)"

fun exceptions :: "exc \<Rightarrow> exc list" where
  "exceptions (ExcGroup n subs) = subs"
| "exceptions (Exc n) = []"

fun exc_class :: "exc \<Rightarrow> string" where
  "exc_class (ExcGroup n subs) = n"
| "exc_class (Exc n) = n"

text \<open>
  \<^verbatim>\<open>sys.exc_info()\<close> reads the exception being handled, the parameter
  \<open>sys_exc_info\<close>; a triple \<^verbatim>\<open>(type(exc), exc, exc.__traceback__)\<close> is determined by
  \<open>exc\<close>, so \<open>format_exception\<close> takes the exception.
\<close>

definition exc_info_triple :: "exc \<Rightarrow> pyval" where
  "exc_info_triple e = VTuple [VOther (exc_class e), VExc e, VOther ''traceback'']"

definition current_exc_info :: "exc option \<Rightarrow> pyval" where
  "current_exc_info sys_exc_info =
     (case sys_exc_info of
        None \<Rightarrow> VTuple [VNone, VNone, VNone]
      | Some e \<Rightarrow> exc_info_triple e)"

text \<open>
  \<^verbatim>\<open>
  if (isinstance(exc_info, tuple) and len(exc_info) == 3
          and isinstance(exc_info[1], BaseExceptionGroup)):
      group = exc_info[1]
  elif isinstance(exc_info, BaseExceptionGroup):
      group = exc_info
  \<close>
  \<open>and\<close> stops at the first false operand, so the second \<^verbatim>\<open>isinstance\<close> of the
  \<^verbatim>\<open>if\<close> is evaluated for a triple only, and the \<^verbatim>\<open>elif\<close> whenever the \<^verbatim>\<open>if\<close> is false.
\<close>

definition group_of :: "pyval \<Rightarrow> exc option" where
  "group_of v = (case v of VExc e \<Rightarrow> Some e | _ \<Rightarrow> None)"

definition find_group :: "class_cell \<Rightarrow> pyval \<Rightarrow> py_error + exc option" where
  "find_group cell exc_info =
     (let elif_branch =
            (case isinstance_BaseExceptionGroup cell exc_info of
               Inl err \<Rightarrow> Inl err
             | Inr b \<Rightarrow> Inr (if b then group_of exc_info else None))
      in case exc_info of
           VTuple [t, v, tb] \<Rightarrow>
             (case isinstance_BaseExceptionGroup cell v of
                Inl err \<Rightarrow> Inl err
              | Inr b \<Rightarrow> if b then Inr (group_of v) else elif_branch)
         | _ \<Rightarrow> elif_branch)"

text \<open>
  The processor \<^verbatim>\<open>_exception_group_tracebacks\<close>:
  \<^verbatim>\<open>
  if exc_info := event_dict.get("exc_info", None):
      group = None
      if exc_info is True:
          exc_info = sys.exc_info()
          if exc_info[0] is None:
              exc_info = None
      (the if / elif above)
      if group:
          del event_dict["exc_info"]
          event_dict["exception"] = list(itertools.chain.from_iterable(
              format_exception((type(exc), exc, exc.__traceback__))
              for exc in (*group.exceptions, group)))
  return event_dict
  \<close>
\<close>

definition exception_group_tracebacks ::
  "bool \<Rightarrow> (exc \<Rightarrow> pyval list) \<Rightarrow> exc option \<Rightarrow> pyval \<Rightarrow> pyval \<Rightarrow> pydict
   \<Rightarrow> py_error + pydict" where
  "exception_group_tracebacks has_builtin_group format_exception sys_exc_info
       logger method_name event_dict =
     (let exc_info0 = (case map_of event_dict ''exc_info'' of None \<Rightarrow> VNone | Some v \<Rightarrow> v)
      in if truthy exc_info0
         then
           (let exc_info =
                  (if exc_info0 = VBool True
                   then (case current_exc_info sys_exc_info of
                           VTuple (VNone # rest) \<Rightarrow> VNone
                         | triple \<Rightarrow> triple)
                   else exc_info0)
            in case find_group (BaseExceptionGroup_cell has_builtin_group) exc_info of
                 Inl err \<Rightarrow> Inl err
               | Inr None \<Rightarrow> Inr event_dict
               | Inr (Some grp) \<Rightarrow>
                   Inr (dict_set ''exception''
                          (VList (concat (map format_exception (exceptions grp @ [grp]))))
                          (dict_del ''exc_info'' event_dict)))
         else Inr event_dict)"

text \<open>A record whose \<^verbatim>\<open>exc_info\<close> is a group of two errors, and a formatter that gives
  one frame naming the class.\<close>

definition group_record :: pydict where
  "group_record =
     [(''event'', VStr ''boom''),
      (''exc_info'', VExc (ExcGroup ''ExceptionGroup'' [Exc ''ValueError'', Exc ''KeyError'']))]"

definition class_frame :: "exc \<Rightarrow> pyval list" where
  "class_frame e = [VStr (exc_class e)]"

text \<open>The keys that \<^verbatim>\<open>json_dumps\<close> moves to the front.\<close>

definition reserved_key :: "string \<Rightarrow> bool" where
  "reserved_key k = (k = ''timestamp'' \<or> k = ''level'' \<or> k = ''event'')"

section \<open>Building the processor chain\<close>

text \<open>
  The processors are library objects (structlog's) or the functions above; the chain
  is the list of their names in order. \<open>NoneValue\<close> is Python's \<^verbatim>\<open>None\<close> where a table
  entry holds no processor.
\<close>

datatype processor =
    MaybeTimeStamper string
  | merge_contextvars
  | add_log_level
  | PositionalArgumentsFormatter
  | logger_name_processor
  | redact_jwt_processor
  | StackInfoRenderer
  | ConsoleRenderer
  | exception_group_tracebacks_processor
  | ExceptionRenderer
  | UnicodeDecoder
  | JSONRenderer
  | stdlib_add_log_level
  | stdlib_add_logger_name
  | remove_processors_meta
  | drop_positional_args_processor
  | json_processor
  | NoneValue

type_synonym named = "(string \<times> processor) list"

text \<open>
  The body of \<^verbatim>\<open>logging_processors(enable_pretty_log)\<close>. The test
  \<^verbatim>\<open>hasattr(__builtins__, "BaseExceptionGroup")\<close> is again the parameter
  \<open>has_builtin_group\<close>.
\<close>

definition logging_processors_body :: "bool \<Rightarrow> bool \<Rightarrow> processor list \<times> named" where
  "logging_processors_body has_builtin_group enable_pretty_log =
     (let timestamper =
            (if enable_pretty_log then MaybeTimeStamper ''%Y-%m-%d %H:%M:%S.%f''
             else MaybeTimeStamper ''iso'');
          processors =
            [timestamper, merge_contextvars, add_log_level, PositionalArgumentsFormatter,
             logger_name_processor, redact_jwt_processor, StackInfoRenderer]
      in if enable_pretty_log
         then (processors @ [ConsoleRenderer],
               [(''timestamper'', timestamper), (''console'', ConsoleRenderer)])
         else
           (let dict_tracebacks = ExceptionRenderer;
                exc_group_processor =
                  (if has_builtin_group then exception_group_tracebacks_processor
                   else NoneValue);
                processors1 =
                  (if has_builtin_group then processors @ [exc_group_processor]
                   else processors)
            in (processors1 @ [dict_tracebacks, UnicodeDecoder, JSONRenderer],
                [(''timestamper'', timestamper),
                 (''exc_group_processor'', exc_group_processor),
                 (''dict_tracebacks'', dict_tracebacks),
                 (''json'', json_processor)])))"

section \<open>Process-wide state\<close>

text \<open>
  An output stream, as far as \<^verbatim>\<open>configure_logging\<close> looks at it: its \<^verbatim>\<open>mode\<close> attribute
  (if it has one), whether it is an instance of \<^verbatim>\<open>typing.TextIO\<close>, and its \<^verbatim>\<open>buffer\<close>
  attribute (if it has one).
\<close>

datatype stream =
  Stream (stream_id: nat) (stream_mode: "string option") (stream_is_TextIO: bool)
         (stream_buffer: "stream option")

datatype file_target = PlainFile "stream option" | TextIOWrapper stream

datatype logger_factory = WriteLoggerFactory file_target | BytesLoggerFactory "stream option"

text \<open>The arguments of \<^verbatim>\<open>structlog.configure\<close> and of \<^verbatim>\<open>logging.config.dictConfig\<close>.\<close>

record structlog_cfg =
  sc_processors_id :: nat
  sc_processors :: "processor list"
  sc_cache_logger_on_first_use :: bool
  sc_wrapper_class_level :: nat
  sc_logger_factory :: logger_factory

record logging_cfg =
  lc_plain_processors :: "processor list"
  lc_colored_processors :: "processor list"
  lc_foreign_pre_chain :: "processor list"
  lc_handler_level :: string
  lc_handler_formatter :: string
  lc_to_supervisor_stream :: "stream option"
  lc_root_handlers :: "string list"
  lc_root_level :: string
  lc_airflow_level :: string
  lc_httpx_level :: string
  lc_sqlalchemy_engine_level :: string

text \<open>
  A call of \<^verbatim>\<open>configure_logging\<close>: the value given for each parameter, \<open>None\<close> where
  the caller leaves it out, and the way the values are passed: how many of them
  positionally, and the keywords of the others in the order written.
  \<^verbatim>\<open>functools.cache\<close> keys its table by the positional values followed by the keyword
  items in that order, so two calls have the same key exactly when they are the same
  record: \<^verbatim>\<open>configure_logging()\<close>, \<^verbatim>\<open>configure_logging(True)\<close> and
  \<^verbatim>\<open>configure_logging(enable_pretty_log=True)\<close> are three keys.
\<close>

record call =
  arg_enable_pretty_log :: "bool option"
  arg_log_level :: "string option"
  arg_output :: "stream option option"
  arg_cache_logger_on_first_use :: "bool option"
  arg_sending_to_supervisor :: "bool option"
  arg_positional :: nat
  arg_keywords :: "string list"

text \<open>
  The records that are calls Python binds to the signature: the first
  \<open>arg_positional\<close> parameters are given, and of the others exactly those named, once
  each, in \<open>arg_keywords\<close>. Other records stand for no call.
\<close>

definition parameter_names :: "string list" where
  "parameter_names =
     [''enable_pretty_log'', ''log_level'', ''output'', ''cache_logger_on_first_use'',
      ''sending_to_supervisor'']"

definition given_parameters :: "call \<Rightarrow> string list" where
  "given_parameters c =
     (if arg_enable_pretty_log c = None then [] else [''enable_pretty_log''])
     @ (if arg_log_level c = None then [] else [''log_level''])
     @ (if arg_output c = None then [] else [''output''])
     @ (if arg_cache_logger_on_first_use c = None then [] else [''cache_logger_on_first_use''])
     @ (if arg_sending_to_supervisor c = None then [] else [''sending_to_supervisor''])"

definition valid_call :: "call \<Rightarrow> bool" where
  "valid_call c =
     (arg_positional c \<le> length parameter_names
      \<and> distinct (arg_keywords c)
      \<and> set (arg_keywords c) \<subseteq> set (drop (arg_positional c) parameter_names)
      \<and> given_parameters c
          = take (arg_positional c) parameter_names
            @ filter (\<lambda>n. n \<in> set (arg_keywords c)) (drop (arg_positional c) parameter_names))"

text \<open>
  \<^verbatim>\<open>warnings.showwarning\<close> holds the interpreter's original function, this module's
  \<^verbatim>\<open>_showwarning\<close>, or (after an assignment of \<^verbatim>\<open>None\<close>) nothing.
\<close>

datatype handler = OriginalShowwarning nat | Module_showwarning

text \<open>
  What the module reads from outside itself: \<^verbatim>\<open>os.environ\<close>, structlog's table
  \<^verbatim>\<open>NAME_TO_LEVEL\<close>, the result of \<^verbatim>\<open>hasattr(__builtins__, "BaseExceptionGroup")\<close>, and
  the level names the logging module knows (the keys of its \<^verbatim>\<open>_nameToLevel\<close>).
\<close>

record env =
  environ :: "(string \<times> string) list"
  NAME_TO_LEVEL :: "string \<rightharpoonup> nat"
  builtins_has_BaseExceptionGroup :: bool
  logging_level_names :: "string list"

text \<open>
  The state of the process: the tables of the two \<^verbatim>\<open>@cache\<close> decorators, the
  configuration held by structlog and by the logging module, \<^verbatim>\<open>warnings.showwarning\<close>,
  and the module's global \<^verbatim>\<open>_warnings_showwarning\<close>. \<open>next_object_id\<close> gives each
  object built by \<^verbatim>\<open>logging_processors\<close> its identity, and \<open>configure_logging_runs\<close>
  counts how often the body of \<^verbatim>\<open>configure_logging\<close> was entered.
  \<open>logging_handlers_cleared\<close> holds after a \<^verbatim>\<open>dictConfig\<close> call that raised: it has
  closed the handlers of the earlier configuration and not put the new one in place.
\<close>

record log_state =
  logging_processors_cache :: "bool \<rightharpoonup> nat \<times> processor list \<times> named"
  next_object_id :: nat
  configure_logging_cache :: "call \<rightharpoonup> unit"
  configure_logging_runs :: nat
  structlog_config :: "structlog_cfg option"
  logging_config :: "logging_cfg option"
  logging_handlers_cleared :: bool
  warnings_showwarning :: "handler option"
  module_warnings_showwarning :: "handler option"

definition initial_state :: "handler \<Rightarrow> log_state" where
  "initial_state h =
     \<lparr> logging_processors_cache = Map.empty,
       next_object_id = 0,
       configure_logging_cache = Map.empty,
       configure_logging_runs = 0,
       structlog_config = None,
       logging_config = None,
       logging_handlers_cleared = False,
       warnings_showwarning = Some h,
       module_warnings_showwarning = None \<rparr>"

text \<open>\<^verbatim>\<open>@cache def logging_processors(enable_pretty_log)\<close>: a hit returns the stored
  object, a miss runs the body and stores its result.\<close>

definition logging_processors ::
  "env \<Rightarrow> bool \<Rightarrow> log_state \<Rightarrow> (nat \<times> processor list \<times> named) \<times> log_state" where
  "logging_processors e enable_pretty_log st =
     (case logging_processors_cache st enable_pretty_log of
        Some obj \<Rightarrow> (obj, st)
      | None \<Rightarrow>
          (let obj = (next_object_id st,
                      logging_processors_body (builtins_has_BaseExceptionGroup e) enable_pretty_log)
           in (obj, st\<lparr> logging_processors_cache :=
                          (logging_processors_cache st)(enable_pretty_log \<mapsto> obj),
                        next_object_id := Suc (next_object_id st) \<rparr>)))"

section \<open>Configuring the pipeline\<close>

text \<open>\<^verbatim>\<open>str.lower()\<close> and \<^verbatim>\<open>str.upper()\<close> on the letters a level name is written with.\<close>

definition lower_char :: "char \<Rightarrow> char" where
  "lower_char c =
     (case map_of (zip ''ABCDEFGHIJKLMNOPQRSTUVWXYZ'' ''abcdefghijklmnopqrstuvwxyz'') c of
        None \<Rightarrow> c
      | Some d \<Rightarrow> d)"

definition upper_char :: "char \<Rightarrow> char" where
  "upper_char c =
     (case map_of (zip ''abcdefghijklmnopqrstuvwxyz'' ''ABCDEFGHIJKLMNOPQRSTUVWXYZ'') c of
        None \<Rightarrow> c
      | Some d \<Rightarrow> d)"

definition lower :: "string \<Rightarrow> string" where
  "lower s = map lower_char s"

definition upper :: "string \<Rightarrow> string" where
  "upper s = map upper_char s"

text \<open>\<^verbatim>\<open>named[k]\<close>: a dict lookup, \<^verbatim>\<open>KeyError\<close> on a missing key.\<close>

definition named_get :: "string \<Rightarrow> named \<Rightarrow> py_error + processor" where
  "named_get k named = (case map_of named k of None \<Rightarrow> Inl (KeyError k) | Some p \<Rightarrow> Inr p)"

text \<open>
  Structured mode, lines 285 to 291:
  \<^verbatim>\<open>
  if output is not None and "b" not in output.mode:
      if not hasattr(output, "buffer"):
          raise ValueError(...)
      else:
          output = output.buffer
  \<close>
  Reading \<^verbatim>\<open>output.mode\<close> on a stream without that attribute raises
  \<^verbatim>\<open>AttributeError\<close>.
\<close>

definition binary_output :: "stream option \<Rightarrow> py_error + stream option" where
  "binary_output output =
     (case output of
        None \<Rightarrow> Inr None
      | Some s \<Rightarrow>
          (case stream_mode s of
             None \<Rightarrow> Inl (AttributeError ''mode'')
           | Some m \<Rightarrow>
               if CHR ''b'' \<notin> set m
               then (case stream_buffer s of
                       None \<Rightarrow> Inl (ValueError ''output needed to be a binary stream'')
                     | Some b \<Rightarrow> Inr (Some b))
               else Inr (Some s)))"

text \<open>Pretty mode, lines 272 to 276: the factory writes to a \<^verbatim>\<open>TextIOWrapper\<close> around a
  stream that is not a \<^verbatim>\<open>TextIO\<close>, and to \<^verbatim>\<open>output\<close> itself otherwise.\<close>

definition text_logger_factory :: "stream option \<Rightarrow> logger_factory" where
  "text_logger_factory output =
     (case output of
        None \<Rightarrow> WriteLoggerFactory (PlainFile output)
      | Some s \<Rightarrow>
          if \<not> stream_is_TextIO s then WriteLoggerFactory (TextIOWrapper s)
          else WriteLoggerFactory (PlainFile output))"

text \<open>\<^verbatim>\<open>structlog.configure(...)\<close> replaces structlog's configuration.\<close>

definition structlog_configure :: "structlog_cfg \<Rightarrow> log_state \<Rightarrow> log_state" where
  "structlog_configure cfg st = st\<lparr> structlog_config := Some cfg \<rparr>"

text \<open>
  Lines 309 to 314:
  \<^verbatim>\<open>
  global _warnings_showwarning
  if _warnings_showwarning is None:
      _warnings_showwarning = warnings.showwarning
      warnings.showwarning = _showwarning
  \<close>
\<close>

definition install_showwarning :: "log_state \<Rightarrow> log_state" where
  "install_showwarning st =
     (if module_warnings_showwarning st = None
      then st\<lparr> module_warnings_showwarning := warnings_showwarning st,
               warnings_showwarning := Some Module_showwarning \<rparr>
      else st)"

text \<open>
  Lines 316 to 360: \<^verbatim>\<open>logging.config.dictConfig({...})\<close> with the dict built from the
  local variables. The library closes the existing handlers, then builds the handlers
  and sets up the loggers in the order of the dict; each level name goes through
  \<^verbatim>\<open>logging._checkLevel\<close>, and a name the logging module does not know makes the call
  raise \<^verbatim>\<open>ValueError\<close> (\<^verbatim>\<open>Unable to configure handler 'default'\<close>, or the logger's
  name).
\<close>

definition dictConfig_levels :: "logging_cfg \<Rightarrow> (string \<times> string) list" where
  "dictConfig_levels cfg =
     [(''handler default'', lc_handler_level cfg),
      (''logger root'', lc_root_level cfg),
      (''logger airflow'', lc_airflow_level cfg),
      (''logger httpx'', lc_httpx_level cfg),
      (''logger sqlalchemy.engine'', lc_sqlalchemy_engine_level cfg)]"

definition dictConfig :: "env \<Rightarrow> logging_cfg \<Rightarrow> log_state \<Rightarrow> (py_error + unit) \<times> log_state" where
  "dictConfig e cfg st =
     (case find (\<lambda>(what, level). level \<notin> set (logging_level_names e)) (dictConfig_levels cfg) of
        Some (what, level) \<Rightarrow>
          (Inl (ValueError (''Unable to configure '' @ what)),
           st\<lparr> logging_handlers_cleared := True \<rparr>)
      | None \<Rightarrow>
          (Inr (), st\<lparr> logging_config := Some cfg, logging_handlers_cleared := False \<rparr>))"

definition configure_logging_finish ::
  "env \<Rightarrow> string \<Rightarrow> string \<Rightarrow> stream option \<Rightarrow> bool \<Rightarrow> processor list \<Rightarrow> processor list \<Rightarrow>
   processor list \<Rightarrow> log_state \<Rightarrow> (py_error + unit) \<times> log_state" where
  "configure_logging_finish e log_level formatter output sending_to_supervisor
       pre_chain color_formatter std_lib_formatter st =
     (let st1 = install_showwarning st
      in dictConfig e
                  \<lparr> lc_plain_processors = std_lib_formatter,
                    lc_colored_processors = color_formatter,
                    lc_foreign_pre_chain = pre_chain,
                    lc_handler_level = upper log_level,
                    lc_handler_formatter = formatter,
                    lc_to_supervisor_stream = output,
                    lc_root_handlers =
                      [if sending_to_supervisor then ''to_supervisor'' else ''default''],
                    lc_root_level = ''INFO'',
                    lc_airflow_level = upper log_level,
                    lc_httpx_level = ''WARN'',
                    lc_sqlalchemy_engine_level = ''WARN'' \<rparr> st1)"

text \<open>An argument left out by the caller takes the default of the signature.\<close>

definition default_arg :: "'a \<Rightarrow> 'a option \<Rightarrow> 'a" where
  "default_arg d a = (case a of None \<Rightarrow> d | Some v \<Rightarrow> v)"

text \<open>
  The body of \<^verbatim>\<open>configure_logging\<close>, statement by statement. The defaults of the
  signature are filled in first. A raise leaves the state as it is at that point.
\<close>

definition configure_logging_body ::
  "env \<Rightarrow> call \<Rightarrow> log_state \<Rightarrow> (py_error + unit) \<times> log_state" where
  "configure_logging_body e c st =
     (let enable_pretty_log = default_arg True (arg_enable_pretty_log c);
          log_level = default_arg ''DEBUG'' (arg_log_level c);
          output = default_arg None (arg_output c);
          cache_arg = default_arg True (arg_cache_logger_on_first_use c);
          sending_to_supervisor = default_arg False (arg_sending_to_supervisor c)
      in case NAME_TO_LEVEL e (lower log_level) of
           None \<Rightarrow> (Inl (KeyError (lower log_level)), st)
         | Some lvl \<Rightarrow>
             (let formatter = (if enable_pretty_log then ''colored'' else ''plain'');
                  built = logging_processors e enable_pretty_log st;
                  processors_id = fst (fst built);
                  processors = fst (snd (fst built));
                  named = snd (snd (fst built));
                  st1 = snd built
              in case named_get ''timestamper'' named of
                   Inl err \<Rightarrow> (Inl err, st1)
                 | Inr timestamper \<Rightarrow>
                     (let pre_chain =
                            [stdlib_add_log_level, stdlib_add_logger_name, timestamper,
                             merge_contextvars, redact_jwt_processor];
                          cache_logger_on_first_use =
                            (if ''PYTEST_CURRENT_TEST'' \<in> set (map fst (environ e))
                             then False else cache_arg);
                          color_formatter = [remove_processors_meta, drop_positional_args_processor];
                          std_lib_formatter = [remove_processors_meta, drop_positional_args_processor]
                      in if enable_pretty_log
                         then
                           (let st2 = structlog_configure
                                        \<lparr> sc_processors_id = processors_id,
                                          sc_processors = processors,
                                          sc_cache_logger_on_first_use = cache_logger_on_first_use,
                                          sc_wrapper_class_level = lvl,
                                          sc_logger_factory = text_logger_factory output \<rparr> st1
                            in case named_get ''console'' named of
                                 Inl err \<Rightarrow> (Inl err, st2)
                               | Inr console \<Rightarrow>
                                   configure_logging_finish e log_level formatter output
                                     sending_to_supervisor pre_chain
                                     (color_formatter @ [console]) std_lib_formatter st2)
                         else
                           (case binary_output output of
                              Inl err \<Rightarrow> (Inl err, st1)
                            | Inr output1 \<Rightarrow>
                                (let st2 = structlog_configure
                                             \<lparr> sc_processors_id = processors_id,
                                               sc_processors = processors,
                                               sc_cache_logger_on_first_use =
                                                 cache_logger_on_first_use,
                                               sc_wrapper_class_level = lvl,
                                               sc_logger_factory = BytesLoggerFactory output1 \<rparr>
                                             st1
                                 in case named_get ''exc_group_processor'' named of
                                      Inl err \<Rightarrow> (Inl err, st2)
                                    | Inr proc \<Rightarrow>
                                        (case named_get ''dict_tracebacks'' named of
                                           Inl err \<Rightarrow> (Inl err, st2)
                                         | Inr dict_tracebacks \<Rightarrow>
                                             (case named_get ''json'' named of
                                                Inl err \<Rightarrow> (Inl err, st2)
                                              | Inr js \<Rightarrow>
                                                  configure_logging_finish e log_level formatter
                                                    output1 sending_to_supervisor
                                                    ((if proc \<noteq> NoneValue
                                                      then pre_chain @ [proc] else pre_chain)
                                                     @ [dict_tracebacks])
                                                    (color_formatter @ [js])
                                                    (std_lib_formatter @ [js]) st2)))))))"

text \<open>
  \<^verbatim>\<open>@cache def configure_logging(...)\<close>: a call whose arguments are in the table returns
  the stored result and runs nothing; otherwise the body runs, and its result is stored
  only when it returns.
\<close>

definition configure_logging ::
  "env \<Rightarrow> call \<Rightarrow> log_state \<Rightarrow> (py_error + unit) \<times> log_state" where
  "configure_logging e c st =
     (case configure_logging_cache st c of
        Some r \<Rightarrow> (Inr r, st)
      | None \<Rightarrow>
          (case configure_logging_body e c
                  (st\<lparr> configure_logging_runs := Suc (configure_logging_runs st) \<rparr>) of
             (Inl err, st') \<Rightarrow> (Inl err, st')
           | (Inr r, st') \<Rightarrow>
               (Inr r, st'\<lparr> configure_logging_cache := (configure_logging_cache st')(c \<mapsto> r) \<rparr>)))"

text \<open>
  \<^verbatim>\<open>
  def reset_logging():
      global _warnings_showwarning
      warnings.showwarning = _warnings_showwarning
      configure_logging.cache_clear()
  \<close>
\<close>

definition reset_logging :: "log_state \<Rightarrow> log_state" where
  "reset_logging st =
     st\<lparr> warnings_showwarning := module_warnings_showwarning st,
         configure_logging_cache := Map.empty \<rparr>"

text \<open>
  Concrete surroundings for evaluation: structlog's level table, the level names of the
  logging module, an environment outside and inside a pytest run (the module imported,
  so the \<^verbatim>\<open>hasattr\<close> test is false), and the calls \<^verbatim>\<open>configure_logging()\<close>,
  \<^verbatim>\<open>configure_logging(True)\<close>, \<^verbatim>\<open>configure_logging(enable_pretty_log=True)\<close> and
  \<^verbatim>\<open>configure_logging(log_level="exception")\<close>.
\<close>

definition structlog_NAME_TO_LEVEL :: "string \<rightharpoonup> nat" where
  "structlog_NAME_TO_LEVEL =
     map_of [(''critical'', 50), (''exception'', 40), (''error'', 40), (''warn'', 30),
             (''warning'', 30), (''info'', 20), (''debug'', 10), (''notset'', 0)]"

definition stdlib_level_names :: "string list" where
  "stdlib_level_names =
     [''CRITICAL'', ''FATAL'', ''ERROR'', ''WARN'', ''WARNING'', ''INFO'', ''DEBUG'', ''NOTSET'']"

definition plain_env :: env where
  "plain_env = \<lparr> environ = [(''HOME'', ''/root'')],
                 NAME_TO_LEVEL = structlog_NAME_TO_LEVEL,
                 builtins_has_BaseExceptionGroup = False,
                 logging_level_names = stdlib_level_names \<rparr>"

definition pytest_env :: env where
  "pytest_env = \<lparr> environ = [(''HOME'', ''/root''), (''PYTEST_CURRENT_TEST'', ''test_log.py::test_x (call)'')],
                  NAME_TO_LEVEL = structlog_NAME_TO_LEVEL,
                  builtins_has_BaseExceptionGroup = False,
                  logging_level_names = stdlib_level_names \<rparr>"

definition default_call :: call where
  "default_call = \<lparr> arg_enable_pretty_log = None, arg_log_level = None, arg_output = None,
                    arg_cache_logger_on_first_use = None, arg_sending_to_supervisor = None,
                    arg_positional = 0, arg_keywords = [] \<rparr>"

definition positional_true_call :: call where
  "positional_true_call = default_call\<lparr> arg_enable_pretty_log := Some True, arg_positional := 1 \<rparr>"

definition keyword_true_call :: call where
  "keyword_true_call =
     default_call\<lparr> arg_enable_pretty_log := Some True, arg_keywords := [''enable_pretty_log''] \<rparr>"

definition exception_level_call :: call where
  "exception_level_call =
     default_call\<lparr> arg_log_level := Some ''exception'', arg_keywords := [''log_level''] \<rparr>"

text \<open>
  Two properties that every state reached from a fresh process has, whatever calls were
  made under the surroundings \<open>e\<close>: each stored chain is what the body of
  \<^verbatim>\<open>logging_processors\<close> builds, and each stored call of \<^verbatim>\<open>configure_logging\<close> is one whose
  body returns (its level name is known and, in structured mode, its output is usable).
\<close>

definition chain_cache_ok :: "env \<Rightarrow> log_state \<Rightarrow> bool" where
  "chain_cache_ok e st =
     (\<forall>p obj. logging_processors_cache st p = Some obj \<longrightarrow>
        snd obj = logging_processors_body (builtins_has_BaseExceptionGroup e) p)"

definition memo_sound :: "env \<Rightarrow> log_state \<Rightarrow> bool" where
  "memo_sound e st =
     (chain_cache_ok e st \<and>
      (\<forall>c. configure_logging_cache st c \<noteq> None \<longrightarrow>
         NAME_TO_LEVEL e (lower (default_arg ''DEBUG'' (arg_log_level c))) \<noteq> None
       \<and> (\<not> default_arg True (arg_enable_pretty_log c) \<longrightarrow>
             (\<exists>o1. binary_output (default_arg None (arg_output c)) = Inr o1))))"

text \<open>A text-mode stream without a \<^verbatim>\<open>buffer\<close> attribute, a call with an unknown level
  name, and a structured-mode call writing to that stream.\<close>

definition text_stream :: stream where
  "text_stream = Stream 1 (Some ''w'') False None"

definition bogus_level_call :: call where
  "bogus_level_call =
     default_call\<lparr> arg_log_level := Some ''Verbose'', arg_keywords := [''log_level''] \<rparr>"

definition text_stream_call :: call where
  "text_stream_call =
     default_call\<lparr> arg_enable_pretty_log := Some False, arg_output := Some (Some text_stream),
                   arg_keywords := [''enable_pretty_log'', ''output''] \<rparr>"

section \<open>The binary stream handler\<close>

text \<open>
  \<^verbatim>\<open>StdBinaryStreamHandler.emit\<close> formats a record to a Python string (a list of code
  points), encodes it with \<^verbatim>\<open>bytearray(msg, "utf-8", "backslashreplace")\<close>, appends
  \<^verbatim>\<open>b"\\n"\<close>, writes the buffer to the stream and flushes.
\<close>

type_synonym byte = "8 word"

text \<open>What a call inside \<^verbatim>\<open>emit\<close> can raise, by the classes the handler tells apart.\<close>

datatype raised =
    RecursionError
  | OtherException string
  | BaseExceptionOnly string

text \<open>
  UTF-8 cannot encode the surrogate code points. With the error handler
  \<^verbatim>\<open>backslashreplace\<close> each of them becomes an escape in ASCII (\<^verbatim>\<open>\\xNN\<close>, \<^verbatim>\<open>\\uNNNN\<close> or
  \<^verbatim>\<open>\\UNNNNNNNN\<close> by size); with \<^verbatim>\<open>strict\<close> the encoder raises \<^verbatim>\<open>UnicodeEncodeError\<close>.
\<close>

definition is_surrogate :: "nat \<Rightarrow> bool" where
  "is_surrogate cp = (0xD800 \<le> cp \<and> cp \<le> 0xDFFF)"

definition utf8_char :: "nat \<Rightarrow> byte list" where
  "utf8_char cp =
     (if cp < 0x80 then [of_nat cp]
      else if cp < 0x800 then [of_nat (0xC0 + cp div 64), of_nat (0x80 + cp mod 64)]
      else if cp < 0x10000 then
        [of_nat (0xE0 + cp div 4096), of_nat (0x80 + (cp div 64) mod 64),
         of_nat (0x80 + cp mod 64)]
      else
        [of_nat (0xF0 + cp div 262144), of_nat (0x80 + (cp div 4096) mod 64),
         of_nat (0x80 + (cp div 64) mod 64), of_nat (0x80 + cp mod 64)])"

definition hex_digit :: "nat \<Rightarrow> byte" where
  "hex_digit d = (if d < 10 then of_nat (48 + d) else of_nat (87 + d))"

definition hex2 :: "nat \<Rightarrow> byte list" where
  "hex2 v = [hex_digit (v div 16 mod 16), hex_digit (v mod 16)]"

definition hex4 :: "nat \<Rightarrow> byte list" where
  "hex4 v = hex2 (v div 256) @ hex2 v"

definition hex8 :: "nat \<Rightarrow> byte list" where
  "hex8 v = hex4 (v div 65536) @ hex4 v"

definition backslashreplace :: "nat \<Rightarrow> byte list" where
  "backslashreplace cp =
     (if 0x10000 \<le> cp then [92, 85] @ hex8 cp
      else if 0x100 \<le> cp then [92, 117] @ hex4 cp
      else [92, 120] @ hex2 cp)"

datatype errors = Strict | BackslashReplace

fun utf8_encode :: "errors \<Rightarrow> nat list \<Rightarrow> raised + byte list" where
  "utf8_encode h [] = Inr []"
| "utf8_encode h (cp # cps) =
     (if is_surrogate cp \<and> h = Strict then Inl (OtherException ''UnicodeEncodeError'')
      else (case utf8_encode h cps of
              Inl e \<Rightarrow> Inl e
            | Inr bs \<Rightarrow>
                Inr ((if is_surrogate cp then backslashreplace cp else utf8_char cp) @ bs)))"

text \<open>
  The stream: the bytes written and not yet flushed, the bytes flushed, and what a
  call of \<^verbatim>\<open>write\<close> or \<^verbatim>\<open>flush\<close> raises on a broken stream. \<open>hs_handled_errors\<close> counts
  the calls of \<^verbatim>\<open>logging.Handler.handleError\<close>, the library's report of a failed emit.
\<close>

record binary_stream =
  bs_pending :: "byte list"
  bs_delivered :: "byte list"
  bs_write_raises :: "raised option"
  bs_flush_raises :: "raised option"

record handler_state =
  hs_stream :: binary_stream
  hs_handled_errors :: nat

definition stream_write :: "byte list \<Rightarrow> binary_stream \<Rightarrow> raised option \<times> binary_stream" where
  "stream_write buffer s =
     (case bs_write_raises s of
        Some e \<Rightarrow> (Some e, s)
      | None \<Rightarrow> (None, s\<lparr> bs_pending := bs_pending s @ buffer \<rparr>))"

definition stream_flush :: "binary_stream \<Rightarrow> raised option \<times> binary_stream" where
  "stream_flush s =
     (case bs_flush_raises s of
        Some e \<Rightarrow> (Some e, s)
      | None \<Rightarrow> (None, s\<lparr> bs_delivered := bs_delivered s @ bs_pending s, bs_pending := [] \<rparr>))"

definition handleError :: "'r \<Rightarrow> handler_state \<Rightarrow> handler_state" where
  "handleError rec h = h\<lparr> hs_handled_errors := Suc (hs_handled_errors h) \<rparr>"

text \<open>
  \<^verbatim>\<open>
  def emit(self, record):
      try:
          msg = self.format(record)
          buffer = bytearray(msg, "utf-8", "backslashreplace")
          buffer += b"\\n"
          stream = self.stream
          stream.write(buffer)
          self.flush()
      except RecursionError:
          raise
      except Exception:
          self.handleError(record)
  \<close>
  \<open>emit_try\<close> is the \<^verbatim>\<open>try\<close> block, \<open>emit\<close> adds the two \<^verbatim>\<open>except\<close> clauses. An exception
  that derives from \<^verbatim>\<open>BaseException\<close> only (\<^verbatim>\<open>KeyboardInterrupt\<close>, \<^verbatim>\<open>SystemExit\<close>) matches
  neither clause.
\<close>

definition emit_try ::
  "('r \<Rightarrow> raised + nat list) \<Rightarrow> 'r \<Rightarrow> handler_state \<Rightarrow> raised option \<times> handler_state" where
  "emit_try format rec h =
     (case format rec of
        Inl e \<Rightarrow> (Some e, h)
      | Inr msg \<Rightarrow>
          (case utf8_encode BackslashReplace msg of
             Inl e \<Rightarrow> (Some e, h)
           | Inr buffer0 \<Rightarrow>
               (let buffer = buffer0 @ [10];
                    w = stream_write buffer (hs_stream h)
                in case fst w of
                     Some e \<Rightarrow> (Some e, h\<lparr> hs_stream := snd w \<rparr>)
                   | None \<Rightarrow>
                       (let f = stream_flush (snd w)
                        in (fst f, h\<lparr> hs_stream := snd f \<rparr>)))))"

definition emit ::
  "('r \<Rightarrow> raised + nat list) \<Rightarrow> 'r \<Rightarrow> handler_state \<Rightarrow> (raised + unit) \<times> handler_state" where
  "emit format rec h =
     (case emit_try format rec h of
        (None, h') \<Rightarrow> (Inr (), h')
      | (Some RecursionError, h') \<Rightarrow> (Inl RecursionError, h')
      | (Some (OtherException n), h') \<Rightarrow> (Inr (), handleError rec h')
      | (Some (BaseExceptionOnly n), h') \<Rightarrow> (Inl (BaseExceptionOnly n), h'))"

text \<open>The \<^verbatim>\<open>try\<close> block raises \<open>e\<close>: in \<^verbatim>\<open>format\<close>, in \<^verbatim>\<open>write\<close>, or in \<^verbatim>\<open>flush\<close>.\<close>

definition raised_in_try :: "('r \<Rightarrow> raised + nat list) \<Rightarrow> 'r \<Rightarrow> handler_state \<Rightarrow> raised \<Rightarrow> bool" where
  "raised_in_try format rec h e =
     (format rec = Inl e
      \<or> (\<exists>msg. format rec = Inr msg \<and>
            (bs_write_raises (hs_stream h) = Some e
             \<or> (bs_write_raises (hs_stream h) = None \<and> bs_flush_raises (hs_stream h) = Some e))))"


text \<open>A handler on a working stream, and one whose stream raises on every write.\<close>

definition healthy_handler :: handler_state where
  "healthy_handler =
     \<lparr> hs_stream = \<lparr> bs_pending = [], bs_delivered = [], bs_write_raises = None,
                       bs_flush_raises = None \<rparr>,
       hs_handled_errors = 0 \<rparr>"

definition broken_handler :: "raised \<Rightarrow> handler_state" where
  "broken_handler e =
     \<lparr> hs_stream = \<lparr> bs_pending = [], bs_delivered = [], bs_write_raises = Some e,
                       bs_flush_raises = None \<rparr>,
       hs_handled_errors = 0 \<rparr>"

section \<open>Log files\<close>

text \<open>
  A \<^verbatim>\<open>pathlib\<close> path: whether it is absolute, and its components. Parsing a string
  splits it at \<^verbatim>\<open>/\<close> and drops empty components and \<^verbatim>\<open>.\<close>, as \<^verbatim>\<open>PurePosixPath\<close> does;
  a component \<^verbatim>\<open>..\<close> is kept, and \<^verbatim>\<open>parent\<close> and \<^verbatim>\<open>parents\<close> only cut components off.
\<close>

datatype path = Path (is_absolute: bool) (parts: "string list")

fun split_slash :: "string \<Rightarrow> string \<Rightarrow> string list" where
  "split_slash acc [] = [rev acc]"
| "split_slash acc (c # cs) =
     (if c = CHR ''/'' then rev acc # split_slash [] cs else split_slash (c # acc) cs)"

definition parse_path :: "string \<Rightarrow> path" where
  "parse_path s =
     Path (case s of [] \<Rightarrow> False | c # cs \<Rightarrow> c = CHR ''/'')
          (filter (\<lambda>p. p \<noteq> [] \<and> p \<noteq> ''.'') (split_slash [] s))"

text \<open>\<^verbatim>\<open>Path(a, b)\<close>: an absolute \<^verbatim>\<open>b\<close> replaces \<^verbatim>\<open>a\<close>.\<close>

definition path_join :: "path \<Rightarrow> path \<Rightarrow> path" where
  "path_join a b = (if is_absolute b then b else Path (is_absolute a) (parts a @ parts b))"

definition parent :: "path \<Rightarrow> path" where
  "parent p = Path (is_absolute p) (butlast (parts p))"

text \<open>\<^verbatim>\<open>reversed(p.parents)\<close>: the ancestors of \<open>p\<close>, outermost first.\<close>

definition reversed_parents :: "path \<Rightarrow> path list" where
  "reversed_parents p = map (\<lambda>i. Path (is_absolute p) (take i (parts p))) [0..<length (parts p)]"

text \<open>
  The file system. A location is the list of names leading to an entry from the root.
  The state holds what is at each location, with the mode argument of the call that
  created it (the operating system masks that argument with the umask of the process,
  which the module does not set); the working directory; the locations the process has
  no write access to; and the locations created, in order.
\<close>

type_synonym location = "string list"

datatype entry = Dir int | File int

datatype os_error =
    FileExistsError
  | FileNotFoundError
  | NotADirectoryError
  | IsADirectoryError
  | PermissionError

record filesystem =
  entries :: "location \<rightharpoonup> entry"
  cwd :: location
  denied :: "location \<Rightarrow> bool"
  created :: "location list"

fun is_dir_entry :: "entry option \<Rightarrow> bool" where
  "is_dir_entry (Some (Dir m)) = True"
| "is_dir_entry e = False"

text \<open>
  The operating system resolves a path component by component: each step needs the
  location reached so far to be a directory, and \<^verbatim>\<open>..\<close> steps to the directory above
  (the root is above itself).
\<close>

fun walk :: "filesystem \<Rightarrow> location \<Rightarrow> string list \<Rightarrow> os_error + location" where
  "walk fs loc [] = Inr loc"
| "walk fs loc (c # cs) =
     (case entries fs loc of
        None \<Rightarrow> Inl FileNotFoundError
      | Some (File m) \<Rightarrow> Inl NotADirectoryError
      | Some (Dir m) \<Rightarrow> walk fs (if c = ''..'' then butlast loc else loc @ [c]) cs)"

definition locate :: "filesystem \<Rightarrow> path \<Rightarrow> os_error + location" where
  "locate fs p = walk fs (if is_absolute p then [] else cwd fs) (parts p)"

text \<open>\<^verbatim>\<open>os.mkdir(p, mode)\<close> and \<^verbatim>\<open>os.open(p, O_CREAT | O_WRONLY, mode)\<close> put a new entry into
  the directory above its location.\<close>

definition create_entry :: "location \<Rightarrow> entry \<Rightarrow> filesystem \<Rightarrow> os_error + filesystem" where
  "create_entry loc e fs =
     (if loc = [] then Inl FileNotFoundError
      else case entries fs (butlast loc) of
             None \<Rightarrow> Inl FileNotFoundError
           | Some (File m) \<Rightarrow> Inl NotADirectoryError
           | Some (Dir m) \<Rightarrow>
               if denied fs (butlast loc) then Inl PermissionError
               else Inr (fs\<lparr> entries := (entries fs)(loc \<mapsto> e), created := created fs @ [loc] \<rparr>))"

definition os_mkdir :: "path \<Rightarrow> int \<Rightarrow> filesystem \<Rightarrow> os_error + filesystem" where
  "os_mkdir p mode fs =
     (case locate fs p of
        Inl err \<Rightarrow> Inl err
      | Inr loc \<Rightarrow>
          (case entries fs loc of
             Some e \<Rightarrow> Inl FileExistsError
           | None \<Rightarrow> create_entry loc (Dir mode) fs))"

definition path_is_dir :: "path \<Rightarrow> filesystem \<Rightarrow> bool" where
  "path_is_dir p fs =
     (case locate fs p of Inl err \<Rightarrow> False | Inr loc \<Rightarrow> is_dir_entry (entries fs loc))"

text \<open>
  \<^verbatim>\<open>Path.mkdir(mode=mode, exist_ok=True)\<close>: an \<^verbatim>\<open>OSError\<close> of \<^verbatim>\<open>os.mkdir\<close> is
  swallowed when the path is a directory; \<^verbatim>\<open>FileNotFoundError\<close> is raised again since
  \<^verbatim>\<open>parents\<close> is false.
\<close>

definition path_mkdir :: "path \<Rightarrow> int \<Rightarrow> filesystem \<Rightarrow> os_error + filesystem" where
  "path_mkdir p mode fs =
     (case os_mkdir p mode fs of
        Inr fs' \<Rightarrow> Inr fs'
      | Inl FileNotFoundError \<Rightarrow> Inl FileNotFoundError
      | Inl err \<Rightarrow> if path_is_dir p fs then Inr fs else Inl err)"

text \<open>
  \<^verbatim>\<open>Path.touch(mode, exist_ok=True)\<close>: \<^verbatim>\<open>os.utime\<close> on an existing path, and when that
  fails \<^verbatim>\<open>os.open(p, O_CREAT | O_WRONLY, mode)\<close>.
\<close>

definition os_utime :: "path \<Rightarrow> filesystem \<Rightarrow> os_error + filesystem" where
  "os_utime p fs =
     (case locate fs p of
        Inl err \<Rightarrow> Inl err
      | Inr loc \<Rightarrow>
          (case entries fs loc of
             None \<Rightarrow> Inl FileNotFoundError
           | Some e \<Rightarrow> if denied fs loc then Inl PermissionError else Inr fs))"

definition os_open_create :: "path \<Rightarrow> int \<Rightarrow> filesystem \<Rightarrow> os_error + filesystem" where
  "os_open_create p mode fs =
     (case locate fs p of
        Inl err \<Rightarrow> Inl err
      | Inr loc \<Rightarrow>
          (case entries fs loc of
             Some (Dir m) \<Rightarrow> Inl IsADirectoryError
           | Some (File m) \<Rightarrow> if denied fs loc then Inl PermissionError else Inr fs
           | None \<Rightarrow> create_entry loc (File mode) fs))"

definition path_touch :: "path \<Rightarrow> int \<Rightarrow> filesystem \<Rightarrow> os_error + filesystem" where
  "path_touch p mode fs =
     (case os_utime p fs of
        Inr fs' \<Rightarrow> Inr fs'
      | Inl err \<Rightarrow> os_open_create p mode fs)"

text \<open>
  \<^verbatim>\<open>
  def _prepare_log_folder(directory, mode):
      for parent in reversed(directory.parents):
          parent.mkdir(mode=mode, exist_ok=True)
      directory.mkdir(mode=mode, exist_ok=True)
  \<close>
  A raise ends the loop; the directories made before it stay.
\<close>

fun mkdir_all :: "path list \<Rightarrow> int \<Rightarrow> filesystem \<Rightarrow> os_error option \<times> filesystem" where
  "mkdir_all [] mode fs = (None, fs)"
| "mkdir_all (p # ps) mode fs =
     (case path_mkdir p mode fs of
        Inl err \<Rightarrow> (Some err, fs)
      | Inr fs' \<Rightarrow> mkdir_all ps mode fs')"

definition prepare_log_folder :: "path \<Rightarrow> int \<Rightarrow> filesystem \<Rightarrow> os_error option \<times> filesystem" where
  "prepare_log_folder directory mode fs =
     mkdir_all (reversed_parents directory @ [directory]) mode fs"

text \<open>
  \<^verbatim>\<open>int(s, 8)\<close> on a string of ASCII characters: white space around the number, an
  optional sign, an optional prefix \<^verbatim>\<open>0o\<close> or \<^verbatim>\<open>0O\<close> (which one underscore may follow),
  then octal digits, single underscores allowed between digits. Anything else is a
  \<^verbatim>\<open>ValueError\<close>, here \<open>None\<close>.
\<close>

definition is_space :: "char \<Rightarrow> bool" where
  "is_space c = (c \<in> set [CHR '' '', CHR 0x09, CHR 0x0A, CHR 0x0B, CHR 0x0C, CHR 0x0D,
                            CHR 0x1C, CHR 0x1D, CHR 0x1E, CHR 0x1F])"

definition strip :: "string \<Rightarrow> string" where
  "strip s = rev (dropWhile is_space (rev (dropWhile is_space s)))"

definition octal_digit :: "char \<Rightarrow> int option" where
  "octal_digit c = map_of (zip ''01234567'' [0, 1, 2, 3, 4, 5, 6, 7]) c"

fun octal_value :: "int \<Rightarrow> string \<Rightarrow> int option" where
  "octal_value acc [] = Some acc"
| "octal_value acc (c # cs) =
     (if c = CHR ''_''
      then (case cs of
              [] \<Rightarrow> None
            | d # ds \<Rightarrow> if d = CHR ''_'' then None else octal_value acc cs)
      else (case octal_digit c of
              None \<Rightarrow> None
            | Some v \<Rightarrow> octal_value (8 * acc + v) cs))"

definition int_base8 :: "string \<Rightarrow> int option" where
  "int_base8 s =
     (let t = strip s;
          negative = (take 1 t = ''-'');
          unsigned = (if take 1 t = ''+'' \<or> take 1 t = ''-'' then drop 1 t else t);
          after_prefix =
            (if take 2 unsigned = ''0o'' \<or> take 2 unsigned = ''0O''
             then (if take 1 (drop 2 unsigned) = ''_'' then drop 3 unsigned else drop 2 unsigned)
             else unsigned)
      in if after_prefix = [] \<or> take 1 after_prefix = ''_'' then None
         else (case octal_value 0 after_prefix of
                 None \<Rightarrow> None
               | Some n \<Rightarrow> Some (if negative then - n else n)))"

text \<open>
  The configuration read by \<^verbatim>\<open>init_log_file\<close>: the two permission options (absent
  options take the fallbacks \<^verbatim>\<open>0o664\<close> and \<^verbatim>\<open>0o775\<close>) and the base log folder.
\<close>

record conf =
  file_task_handler_new_file_permissions :: "string option"
  file_task_handler_new_folder_permissions :: "string option"
  base_log_folder :: string

datatype init_error = ConfValueError string | OSError os_error

record log_files =
  files :: filesystem
  warnings_logged :: "os_error list"

text \<open>
  \<^verbatim>\<open>
  def init_log_file(local_relative_path):
      new_file_permissions = int(conf.get(..., fallback="0o664"), 8)
      new_folder_permissions = int(conf.get(..., fallback="0o775"), 8)
      base_log_folder = conf.get("logging", "base_log_folder")
      full_path = Path(base_log_folder, local_relative_path)
      _prepare_log_folder(full_path.parent, new_folder_permissions)
      try:
          full_path.touch(new_file_permissions)
      except OSError as e:
          log = structlog.get_logger()
          log.warning("OSError while changing ownership of the log file. %s", e)
      return full_path
  \<close>
\<close>

definition init_log_file :: "conf \<Rightarrow> string \<Rightarrow> log_files \<Rightarrow> (init_error + path) \<times> log_files" where
  "init_log_file cf local_relative_path st =
     (case int_base8 (case file_task_handler_new_file_permissions cf of
                        None \<Rightarrow> ''0o664'' | Some s \<Rightarrow> s) of
        None \<Rightarrow> (Inl (ConfValueError ''file_task_handler_new_file_permissions''), st)
      | Some new_file_permissions \<Rightarrow>
          (case int_base8 (case file_task_handler_new_folder_permissions cf of
                             None \<Rightarrow> ''0o775'' | Some s \<Rightarrow> s) of
             None \<Rightarrow> (Inl (ConfValueError ''file_task_handler_new_folder_permissions''), st)
           | Some new_folder_permissions \<Rightarrow>
               (let full_path = path_join (parse_path (base_log_folder cf))
                                          (parse_path local_relative_path);
                    prepared = prepare_log_folder (parent full_path) new_folder_permissions (files st)
                in case fst prepared of
                     Some err \<Rightarrow> (Inl (OSError err), st\<lparr> files := snd prepared \<rparr>)
                   | None \<Rightarrow>
                       (case path_touch full_path new_file_permissions (snd prepared) of
                          Inl err \<Rightarrow>
                            (Inr full_path,
                             st\<lparr> files := snd prepared,
                                 warnings_logged := warnings_logged st @ [err] \<rparr>)
                        | Inr fs' \<Rightarrow> (Inr full_path, st\<lparr> files := fs' \<rparr>)))))"

text \<open>The default configuration with base folder \<^verbatim>\<open>/logs\<close>; a file system where
  \<^verbatim>\<open>/logs/a\<close> exists; and one where the process may create nothing in \<^verbatim>\<open>/logs\<close>.\<close>

definition logs_conf :: conf where
  "logs_conf = \<lparr> file_task_handler_new_file_permissions = None,
                 file_task_handler_new_folder_permissions = None,
                 base_log_folder = ''/logs'' \<rparr>"

definition logs_fs :: filesystem where
  "logs_fs = \<lparr> entries = [[] \<mapsto> Dir 493, [''logs''] \<mapsto> Dir 509, [''logs'', ''a''] \<mapsto> Dir 448],
               cwd = [],
               denied = (\<lambda>loc. False),
               created = [] \<rparr>"

definition readonly_fs :: filesystem where
  "readonly_fs = \<lparr> entries = [[] \<mapsto> Dir 493, [''logs''] \<mapsto> Dir 365],
                   cwd = [],
                   denied = (\<lambda>loc. loc = [''logs'']),
                   created = [] \<rparr>"

section \<open>Properties of the dict operations\<close>

lemma map_of_dict_del: "map_of (dict_del k d) k' = (if k' = k then None else map_of d k')"
  by (induction d) (auto simp: dict_del_def)

lemma map_of_dict_set: "map_of (dict_set k v d) k' = (if k' = k then Some v else map_of d k')"
  by (induction d) auto

lemma dict_set_fresh: "k \<notin> fst ` set d \<Longrightarrow> dict_set k v d = d @ [(k, v)]"
  by (induction d) auto

lemma dict_unpack_into_fresh:
  "distinct (map fst src) \<Longrightarrow> fst ` set src \<inter> fst ` set dst = {} \<Longrightarrow>
   dict_unpack_into src dst = dst @ src"
proof (induction src arbitrary: dst)
  case Nil
  then show ?case by (simp add: dict_unpack_into_def)
next
  case (Cons kv src)
  obtain k v where kv: "kv = (k, v)" by (cases kv)
  have fresh: "k \<notin> fst ` set dst" using Cons.prems(2) by (auto simp: kv)
  have step: "dict_set k v dst = dst @ [(k, v)]" using fresh by (rule dict_set_fresh)
  have d: "distinct (map fst src)" using Cons.prems(1) by simp
  have disj: "fst ` set src \<inter> fst ` set (dst @ [(k, v)]) = {}"
    using Cons.prems by (auto simp: kv)
  have "dict_unpack_into src (dst @ [(k, v)]) = (dst @ [(k, v)]) @ src"
    using Cons.IH [OF d disj] .
  then show ?case by (simp add: dict_unpack_into_def kv step)
qed

lemma three_dels:
  "dict_del ''event'' (dict_del ''level'' (dict_del ''timestamp'' d))
     = filter (\<lambda>(k, v). \<not> reserved_key k) d"
  by (induction d) (auto simp: dict_del_def reserved_key_def)

section \<open>Redaction\<close>

lemma dict_set_append_hit:
  "k \<notin> fst ` set xs \<Longrightarrow> dict_set k v (xs @ (k, w) # ys) = xs @ (k, v) # ys"
  by (induction xs) auto

lemma redact_jwt_loop_map:
  "distinct (map fst (xs @ ys)) \<Longrightarrow>
   redact_jwt_loop ys (map (\<lambda>(k, v). (k, redact_value v)) xs @ ys)
     = map (\<lambda>(k, v). (k, redact_value v)) (xs @ ys)"
proof (induction ys arbitrary: xs)
  case Nil
  then show ?case by simp
next
  case (Cons kv ys)
  obtain k v where kv: "kv = (k, v)" by (cases kv)
  let ?R = "\<lambda>(k, v). (k, redact_value v)"
  have notin: "k \<notin> fst ` set (map ?R xs)"
    using Cons.prems by (force simp: kv)
  have step: "(if is_str v \<and> (case v of VStr s \<Rightarrow> startswith s ''eyJ'' | _ \<Rightarrow> False)
        then dict_set k (VStr ''eyJ***'') (map ?R xs @ (k, v) # ys)
        else map ?R xs @ (k, v) # ys) = map ?R (xs @ [(k, v)]) @ ys"
    using dict_set_append_hit [OF notin, of "VStr ''eyJ***''" v ys]
    by (cases v) (auto simp: redact_value_def)
  have d: "distinct (map fst ((xs @ [(k, v)]) @ ys))"
    using Cons.prems by (simp add: kv)
  show ?case
    using Cons.IH [OF d] step by (simp add: kv)
qed

lemma redact_jwt_map:
  "distinct (map fst d) \<Longrightarrow> redact_jwt l m d = map (\<lambda>(k, v). (k, redact_value v)) d"
  using redact_jwt_loop_map [of "[]" d] by (simp add: redact_jwt_def)

lemma redact_value_idem: "redact_value (redact_value v) = redact_value v"
  by (cases v) (auto simp: redact_value_def startswith_def)

lemma map_of_map_value:
  "map_of (map (\<lambda>(k, v). (k, f v)) d) k = map_option f (map_of d k)"
  by (induction d) auto

text \<open>
  Claim C1. On a record (distinct keys), \<^verbatim>\<open>redact_jwt\<close> replaces every string value that
  starts with \<^verbatim>\<open>eyJ\<close> by exactly \<^verbatim>\<open>eyJ***\<close>, leaves every value that is not a string and
  every string that does not start with \<^verbatim>\<open>eyJ\<close> as it is, keeps the keys and their
  order, and applying it twice gives the same record as applying it once.
\<close>

theorem redact_jwt_spec:
  assumes "distinct (map fst d)"
  shows "(\<forall>k s. map_of d k = Some (VStr s) \<and> startswith s ''eyJ'' \<longrightarrow>
            map_of (redact_jwt l m d) k = Some (VStr ''eyJ***''))
       \<and> (\<forall>k v. map_of d k = Some v \<and> \<not> is_str v \<longrightarrow> map_of (redact_jwt l m d) k = Some v)
       \<and> (\<forall>k s. map_of d k = Some (VStr s) \<and> \<not> startswith s ''eyJ'' \<longrightarrow>
            map_of (redact_jwt l m d) k = Some (VStr s))
       \<and> map fst (redact_jwt l m d) = map fst d
       \<and> redact_jwt l m (redact_jwt l m d) = redact_jwt l m d"
proof -
  let ?R = "\<lambda>(k, v). (k, redact_value v)"
  have eq: "redact_jwt l m d = map ?R d" using assms by (rule redact_jwt_map)
  have keys: "map fst (map ?R d) = map fst d" by (induction d) auto
  have "distinct (map fst (map ?R d))" using assms by (simp only: keys)
  then have eq2: "redact_jwt l m (map ?R d) = map ?R (map ?R d)"
    by (rule redact_jwt_map)
  have idem: "map ?R (map ?R d) = map ?R d"
    by (induction d) (auto simp: redact_value_idem)
  have a: "\<forall>k s. map_of d k = Some (VStr s) \<and> startswith s ''eyJ'' \<longrightarrow>
            map_of (map ?R d) k = Some (VStr ''eyJ***'')"
    by (simp add: map_of_map_value redact_value_def)
  have b: "\<forall>k v. map_of d k = Some v \<and> \<not> is_str v \<longrightarrow> map_of (map ?R d) k = Some v"
  proof (intro allI impI)
    fix k v assume "map_of d k = Some v \<and> \<not> is_str v"
    then show "map_of (map ?R d) k = Some v"
      by (cases v) (simp_all add: map_of_map_value redact_value_def)
  qed
  have c: "\<forall>k s. map_of d k = Some (VStr s) \<and> \<not> startswith s ''eyJ'' \<longrightarrow>
            map_of (map ?R d) k = Some (VStr s)"
    by (simp add: map_of_map_value redact_value_def)
  show ?thesis
    unfolding eq using a b c keys eq2 idem by simp
qed

theorem redact_jwt_spec_witness:
  "distinct (map fst
     [(''event'', VStr ''hi''), (''token'', VStr ''eyJhbGciOi''), (''n'', VInt 3), (''t'', VStr ''EyJx'')])
   \<and> redact_jwt VNone (VStr ''info'')
     [(''event'', VStr ''hi''), (''token'', VStr ''eyJhbGciOi''), (''n'', VInt 3), (''t'', VStr ''EyJx'')]
   = [(''event'', VStr ''hi''), (''token'', VStr ''eyJ***''), (''n'', VInt 3), (''t'', VStr ''EyJx'')]
   \<and> map_of (redact_jwt VNone (VStr ''info'')
     [(''event'', VStr ''hi''), (''token'', VStr ''eyJhbGciOi''), (''n'', VInt 3), (''t'', VStr ''EyJx'')]) ''token''
      = Some (VStr ''eyJ***'')"
  using redact_jwt_spec [of "[(''event'', VStr ''hi''), (''token'', VStr ''eyJhbGciOi''), (''n'', VInt 3), (''t'', VStr ''EyJx'')]" VNone "VStr ''info''"]
  by (simp add: redact_jwt_def startswith_def)

section \<open>JSON key order\<close>

lemma json_dumps_reorder_ok:
  assumes "distinct (map fst msg)"
      and "map_of msg ''timestamp'' = Some ts"
      and "map_of msg ''level'' = Some lvl"
      and "map_of msg ''event'' = Some ev"
  shows "json_dumps_reorder msg =
           Inr ([(''timestamp'', ts), (''level'', lvl), (''event'', ev)]
                @ filter (\<lambda>(k, v). \<not> reserved_key k) msg)"
proof -
  let ?rest = "filter (\<lambda>(k, v). \<not> reserved_key k) msg"
  have p1: "dict_pop ''timestamp'' msg = Inr (ts, dict_del ''timestamp'' msg)"
    using assms(2) by (simp add: dict_pop_def)
  have p2: "dict_pop ''level'' (dict_del ''timestamp'' msg)
              = Inr (lvl, dict_del ''level'' (dict_del ''timestamp'' msg))"
    using assms(3) by (simp add: dict_pop_def map_of_dict_del)
  have p3: "dict_pop ''event'' (dict_del ''level'' (dict_del ''timestamp'' msg))
              = Inr (ev, ?rest)"
    using assms(4) by (simp add: dict_pop_def map_of_dict_del three_dels)
  have d: "distinct (map fst ?rest)"
    using assms(1) by (simp add: distinct_map_filter)
  have disj: "fst ` set ?rest \<inter> fst ` set [(''timestamp'', ts), (''level'', lvl), (''event'', ev)] = {}"
    by (auto simp: reserved_key_def)
  show ?thesis
    unfolding json_dumps_reorder_def
    by (simp add: p1 p2 p3 dict_unpack_into_fresh [OF d disj])
qed

text \<open>
  Claim C2. For a record that has the fields \<^verbatim>\<open>timestamp\<close>, \<^verbatim>\<open>level\<close> and \<^verbatim>\<open>event\<close>,
  the serializer of the structured renderer hands the encoder a dict whose first three
  keys are \<^verbatim>\<open>timestamp\<close>, \<^verbatim>\<open>level\<close>, \<^verbatim>\<open>event\<close>, in that order, followed by all the
  other fields of the record in their insertion order. The record
  \<^verbatim>\<open>{event: "hi", level: "info", extra: "x", timestamp: "T"}\<close> gives the keys
  \<^verbatim>\<open>timestamp, level, event, extra\<close>.
\<close>

theorem json_dumps_key_order:
  assumes "distinct (map fst msg)"
      and "map_of msg ''timestamp'' = Some ts"
      and "map_of msg ''level'' = Some lvl"
      and "map_of msg ''event'' = Some ev"
  shows "\<exists>msg'. json_dumps encode msg = Inr (encode msg')
           \<and> json_dumps_reorder msg = Inr msg'
           \<and> take 3 msg' = [(''timestamp'', ts), (''level'', lvl), (''event'', ev)]
           \<and> drop 3 msg' = filter (\<lambda>(k, v). \<not> reserved_key k) msg
           \<and> map fst msg' = [''timestamp'', ''level'', ''event'']
                              @ filter (\<lambda>k. \<not> reserved_key k) (map fst msg)"
proof -
  let ?msg' = "[(''timestamp'', ts), (''level'', lvl), (''event'', ev)]
                @ filter (\<lambda>(k, v). \<not> reserved_key k) msg"
  have r: "json_dumps_reorder msg = Inr ?msg'"
    using assms by (rule json_dumps_reorder_ok)
  have keys: "map fst (filter (\<lambda>(k, v). \<not> reserved_key k) msg)
                = filter (\<lambda>k. \<not> reserved_key k) (map fst msg)"
    by (induction msg) auto
  have "json_dumps encode msg = Inr (encode ?msg')"
    by (simp add: json_dumps_def r)
  with r keys show ?thesis by simp
qed

theorem json_dumps_key_order_witness:
  "json_dumps (map fst)
     [(''event'', VStr ''hi''), (''level'', VStr ''info''), (''extra'', VStr ''x''), (''timestamp'', VStr ''T'')]
   = Inr [''timestamp'', ''level'', ''event'', ''extra'']"
  using json_dumps_key_order [of
     "[(''event'', VStr ''hi''), (''level'', VStr ''info''), (''extra'', VStr ''x''), (''timestamp'', VStr ''T'')]"
     "VStr ''T''" "VStr ''info''" "VStr ''hi''" "map fst"]
  by (auto simp: reserved_key_def)

section \<open>Exception groups\<close>

lemma find_group_stand_in: "find_group StandInClass exc_info = Inr None"
  by (simp add: find_group_def isinstance_BaseExceptionGroup_def Let_def
        split: pyval.splits list.splits)

lemma find_group_unbound: "find_group UnboundCell exc_info = Inl (NameError ''BaseExceptionGroup'')"
  by (simp add: find_group_def isinstance_BaseExceptionGroup_def Let_def
        split: pyval.splits list.splits)

lemma exception_group_tracebacks_result:
  "exception_group_tracebacks has_builtin_group format_exception sys_exc_info l m event_dict
     = (if truthy (case map_of event_dict ''exc_info'' of None \<Rightarrow> VNone | Some v \<Rightarrow> v)
           \<and> has_builtin_group
        then Inl (NameError ''BaseExceptionGroup'')
        else Inr event_dict)"
  by (simp add: exception_group_tracebacks_def BaseExceptionGroup_cell_def Let_def
        find_group_stand_in find_group_unbound)

text \<open>
  Claim C3 at a record whose \<^verbatim>\<open>exc_info\<close> is a group of two errors: where the
  \<^verbatim>\<open>hasattr\<close> test is false the processor returns the record as it is, \<^verbatim>\<open>exc_info\<close> still
  in it and no \<^verbatim>\<open>exception\<close> field; where the test is true it raises \<^verbatim>\<open>NameError\<close>.
  The group is flattened in neither case.
\<close>

theorem exception_group_never_flattened:
  "exception_group_tracebacks False class_frame None VNone VNone group_record = Inr group_record
   \<and> map_of group_record ''exception'' = None
   \<and> map_of group_record ''exc_info''
       = Some (VExc (ExcGroup ''ExceptionGroup'' [Exc ''ValueError'', Exc ''KeyError'']))
   \<and> exception_group_tracebacks True class_frame None VNone VNone group_record
       = Inl (NameError ''BaseExceptionGroup'')"
  by (simp add: exception_group_tracebacks_result group_record_def)

section \<open>Configuration\<close>

lemma logging_processors_frame:
  "configure_logging_cache (snd (logging_processors e p st)) = configure_logging_cache st"
  "configure_logging_runs (snd (logging_processors e p st)) = configure_logging_runs st"
  "structlog_config (snd (logging_processors e p st)) = structlog_config st"
  "logging_config (snd (logging_processors e p st)) = logging_config st"
  "warnings_showwarning (snd (logging_processors e p st)) = warnings_showwarning st"
  "module_warnings_showwarning (snd (logging_processors e p st)) = module_warnings_showwarning st"
  by (simp_all add: logging_processors_def Let_def split: option.splits)


lemma dictConfig_frame:
  "configure_logging_cache (snd (dictConfig e cfg st)) = configure_logging_cache st"
  "configure_logging_runs (snd (dictConfig e cfg st)) = configure_logging_runs st"
  "structlog_config (snd (dictConfig e cfg st)) = structlog_config st"
  "logging_processors_cache (snd (dictConfig e cfg st)) = logging_processors_cache st"
  "module_warnings_showwarning (snd (dictConfig e cfg st)) = module_warnings_showwarning st"
  "warnings_showwarning (snd (dictConfig e cfg st)) = warnings_showwarning st"
  by (simp_all add: dictConfig_def split: option.splits prod.splits)

lemma finish_frame:
  "configure_logging_cache (snd (configure_logging_finish e a b c d f g h st)) = configure_logging_cache st"
  "configure_logging_runs (snd (configure_logging_finish e a b c d f g h st)) = configure_logging_runs st"
  "structlog_config (snd (configure_logging_finish e a b c d f g h st)) = structlog_config st"
  "logging_processors_cache (snd (configure_logging_finish e a b c d f g h st)) = logging_processors_cache st"
  "module_warnings_showwarning (snd (configure_logging_finish e a b c d f g h st))
     = (if module_warnings_showwarning st = None then warnings_showwarning st
        else module_warnings_showwarning st)"
  "warnings_showwarning (snd (configure_logging_finish e a b c d f g h st))
     = (if module_warnings_showwarning st = None then Some Module_showwarning
        else warnings_showwarning st)"
  by (simp_all add: configure_logging_finish_def dictConfig_frame install_showwarning_def Let_def)

lemma structlog_configure_frame:
  "configure_logging_cache (structlog_configure cfg st) = configure_logging_cache st"
  "configure_logging_runs (structlog_configure cfg st) = configure_logging_runs st"
  "logging_processors_cache (structlog_configure cfg st) = logging_processors_cache st"
  "logging_config (structlog_configure cfg st) = logging_config st"
  "warnings_showwarning (structlog_configure cfg st) = warnings_showwarning st"
  "module_warnings_showwarning (structlog_configure cfg st) = module_warnings_showwarning st"
  "structlog_config (structlog_configure cfg st) = Some cfg"
  by (simp_all add: structlog_configure_def)

lemmas frames = logging_processors_frame finish_frame structlog_configure_frame

lemma body_state_rule:
  assumes "P st"
      and "\<And>p s. P s \<Longrightarrow> P (snd (logging_processors e p s))"
      and "\<And>cfg s. P s \<Longrightarrow> P (structlog_configure cfg s)"
      and "\<And>a b out d f g h s. P s \<Longrightarrow> P (snd (configure_logging_finish e a b out d f g h s))"
  shows "P (snd (configure_logging_body e c st))"
  unfolding configure_logging_body_def Let_def
  by (simp add: assms split: option.splits sum.splits)

lemma body_cache:
  "configure_logging_cache (snd (configure_logging_body e c st)) = configure_logging_cache st"
  by (rule body_state_rule) (simp_all add: frames)

lemma body_runs:
  "configure_logging_runs (snd (configure_logging_body e c st)) = configure_logging_runs st"
  by (rule body_state_rule) (simp_all add: frames)


lemma body_showwarning_kept:
  assumes "module_warnings_showwarning st \<noteq> None"
  shows "module_warnings_showwarning (snd (configure_logging_body e c st)) = module_warnings_showwarning st
   \<and> warnings_showwarning (snd (configure_logging_body e c st)) = warnings_showwarning st"
  by (rule body_state_rule [where P = "\<lambda>s. module_warnings_showwarning s = module_warnings_showwarning st
        \<and> warnings_showwarning s = warnings_showwarning st"])
     (use assms in \<open>auto simp: frames\<close>)

lemma body_unknown_level:
  "NAME_TO_LEVEL e (lower (default_arg ''DEBUG'' (arg_log_level c))) = None \<Longrightarrow>
   configure_logging_body e c st
     = (Inl (KeyError (lower (default_arg ''DEBUG'' (arg_log_level c)))), st)"
  by (simp add: configure_logging_body_def Let_def)

lemma body_success:
  assumes "configure_logging_body e c st = (Inr r, st')"
  shows "module_warnings_showwarning st'
           = (if module_warnings_showwarning st = None then warnings_showwarning st
              else module_warnings_showwarning st)
       \<and> warnings_showwarning st'
           = (if module_warnings_showwarning st = None then Some Module_showwarning
              else warnings_showwarning st)
       \<and> (\<exists>cfg. structlog_config st' = Some cfg \<and>
             sc_cache_logger_on_first_use cfg
               = (if ''PYTEST_CURRENT_TEST'' \<in> set (map fst (environ e)) then False
                  else default_arg True (arg_cache_logger_on_first_use c)))
       \<and> NAME_TO_LEVEL e (lower (default_arg ''DEBUG'' (arg_log_level c))) \<noteq> None
       \<and> (\<not> default_arg True (arg_enable_pretty_log c) \<longrightarrow>
             (\<exists>o1. binary_output (default_arg None (arg_output c)) = Inr o1))"
proof (cases "NAME_TO_LEVEL e (lower (default_arg ''DEBUG'' (arg_log_level c)))")
  case None
  then show ?thesis using assms by (simp add: configure_logging_body_def Let_def)
next
  case (Some lvl)
  let ?P = "default_arg True (arg_enable_pretty_log c)"
  let ?named = "snd (snd (fst (logging_processors e ?P st)))"
  have st': "st' = snd (configure_logging_body e c st)" using assms by simp
  show ?thesis
  proof (cases "named_get ''timestamper'' ?named")
    case (Inl err)
    then show ?thesis using assms Some by (simp add: configure_logging_body_def Let_def)
  next
    case ts: (Inr timestamper)
    show ?thesis
    proof (cases ?P)
      case True
      show ?thesis
      proof (cases "named_get ''console'' ?named")
        case (Inl err)
        then show ?thesis using assms Some ts True
          by (simp add: configure_logging_body_def Let_def)
      next
        case (Inr console)
        show ?thesis unfolding st' using Some ts True Inr
          by (simp add: configure_logging_body_def Let_def frames)
      qed
    next
      case False
      show ?thesis
      proof (cases "binary_output (default_arg None (arg_output c))")
        case (Inl err)
        then show ?thesis using assms Some ts False
          by (simp add: configure_logging_body_def Let_def)
      next
        case out: (Inr output1)
        show ?thesis
        proof (cases "named_get ''exc_group_processor'' ?named")
          case (Inl err)
          then show ?thesis using assms Some ts False out
            by (simp add: configure_logging_body_def Let_def)
        next
          case eg: (Inr proc)
          show ?thesis
          proof (cases "named_get ''dict_tracebacks'' ?named")
            case (Inl err)
            then show ?thesis using assms Some ts False out eg
              by (simp add: configure_logging_body_def Let_def)
          next
            case dt: (Inr dict_tracebacks)
            show ?thesis
            proof (cases "named_get ''json'' ?named")
              case (Inl err)
              then show ?thesis using assms Some ts False out eg dt
                by (simp add: configure_logging_body_def Let_def)
            next
              case (Inr js)
              show ?thesis unfolding st' using Some ts False out eg dt Inr
                by (simp add: configure_logging_body_def Let_def frames)
            qed
          qed
        qed
      qed
    qed
  qed
qed

lemma configure_logging_hit:
  "configure_logging_cache st c = Some r \<Longrightarrow> configure_logging e c st = (Inr r, st)"
  by (simp add: configure_logging_def)

lemma configure_logging_miss:
  "configure_logging_cache st c = None \<Longrightarrow>
   configure_logging e c st =
     (case configure_logging_body e c (st\<lparr> configure_logging_runs := Suc (configure_logging_runs st) \<rparr>) of
        (Inl err, st') \<Rightarrow> (Inl err, st')
      | (Inr r, st') \<Rightarrow>
          (Inr r, st'\<lparr> configure_logging_cache := (configure_logging_cache st')(c \<mapsto> r) \<rparr>))"
  by (simp add: configure_logging_def)

lemma configure_logging_success_cached:
  "configure_logging e c st = (Inr r, st') \<Longrightarrow> configure_logging_cache st' c = Some r"
  by (auto simp: configure_logging_def split: option.splits prod.splits sum.splits)


lemma configure_logging_runs_miss:
  assumes "configure_logging_cache st c = None"
  shows "configure_logging_runs (snd (configure_logging e c st)) = Suc (configure_logging_runs st)"
proof -
  let ?st = "st\<lparr> configure_logging_runs := Suc (configure_logging_runs st) \<rparr>"
  obtain rb sb where rb: "configure_logging_body e c ?st = (rb, sb)" by (cases "configure_logging_body e c ?st")
  have "configure_logging_runs sb = configure_logging_runs ?st"
    using body_runs [of e c ?st] rb by simp
  then show ?thesis using assms rb
    by (cases rb) (simp_all add: configure_logging_miss)
qed






lemmas eval_defs = configure_logging_def configure_logging_body_def Let_def default_arg_def
  default_call_def plain_env_def pytest_env_def initial_state_def structlog_NAME_TO_LEVEL_def
  lower_def lower_char_def upper_def upper_char_def logging_processors_def
  logging_processors_body_def named_get_def structlog_configure_def configure_logging_finish_def
  install_showwarning_def dictConfig_def dictConfig_levels_def stdlib_level_names_def
  text_logger_factory_def binary_output_def reset_logging_def positional_true_call_def
  keyword_true_call_def exception_level_call_def

lemma first_call_plain:
  "fst (configure_logging plain_env default_call (initial_state (OriginalShowwarning 0))) = Inr ()"
  by (simp add: eval_defs)

lemma first_call_pytest:
  "fst (configure_logging pytest_env default_call (initial_state (OriginalShowwarning 0))) = Inr ()"
  by (simp add: eval_defs)

lemma memo_sound_initial: "memo_sound e (initial_state h)"
  by (simp add: memo_sound_def chain_cache_ok_def initial_state_def)

lemma chain_cache_ok_logging_processors:
  "chain_cache_ok e st \<Longrightarrow> chain_cache_ok e (snd (logging_processors e p st))"
  by (auto simp: chain_cache_ok_def logging_processors_def Let_def split: option.splits)

lemma chain_cache_ok_body:
  "chain_cache_ok e st \<Longrightarrow> chain_cache_ok e (snd (configure_logging_body e c st))"
  by (rule body_state_rule)
     (simp_all add: chain_cache_ok_logging_processors,
      simp_all add: chain_cache_ok_def frames)

lemma logging_processors_value:
  "chain_cache_ok e st \<Longrightarrow>
   snd (fst (logging_processors e p st)) = logging_processors_body (builtins_has_BaseExceptionGroup e) p"
  by (auto simp: chain_cache_ok_def logging_processors_def Let_def split: option.splits)

lemma configure_logging_miss_error:
  assumes "configure_logging_cache st c = None"
      and "configure_logging_body e c (st\<lparr> configure_logging_runs := Suc (configure_logging_runs st) \<rparr>)
             = (Inl err, sb)"
  shows "configure_logging e c st = (Inl err, sb)"
  using assms by (simp add: configure_logging_miss)

lemma configure_logging_miss_success:
  assumes "configure_logging_cache st c = None"
      and "configure_logging e c st = (Inr r, st')"
  shows "\<exists>sb. configure_logging_body e c (st\<lparr> configure_logging_runs := Suc (configure_logging_runs st) \<rparr>)
             = (Inr r, sb)
           \<and> st' = sb\<lparr> configure_logging_cache := (configure_logging_cache sb)(c \<mapsto> r) \<rparr>"
  using assms by (auto simp: configure_logging_miss split: prod.splits sum.splits)

lemma memo_sound_configure:
  assumes "memo_sound e st"
  shows "memo_sound e (snd (configure_logging e c st))"
proof (cases "configure_logging_cache st c")
  case (Some a)
  then show ?thesis using assms by (simp add: configure_logging_def)
next
  case None
  let ?st = "st\<lparr> configure_logging_runs := Suc (configure_logging_runs st) \<rparr>"
  obtain rb sb where rb: "configure_logging_body e c ?st = (rb, sb)"
    by (cases "configure_logging_body e c ?st")
  have ok0: "chain_cache_ok e ?st" using assms by (simp add: memo_sound_def chain_cache_ok_def)
  have ok: "chain_cache_ok e sb" using chain_cache_ok_body [OF ok0, of c] rb by simp
  have cache: "configure_logging_cache sb = configure_logging_cache st"
    using body_cache [of e c ?st] rb by simp
  show ?thesis
  proof (cases rb)
    case (Inl err)
    then show ?thesis using assms None rb ok cache
      by (simp add: configure_logging_miss memo_sound_def)
  next
    case (Inr r)
    have s: "NAME_TO_LEVEL e (lower (default_arg ''DEBUG'' (arg_log_level c))) \<noteq> None
       \<and> (\<not> default_arg True (arg_enable_pretty_log c) \<longrightarrow>
             (\<exists>o1. binary_output (default_arg None (arg_output c)) = Inr o1))"
      using body_success [of e c ?st r sb] rb Inr by simp
    have ok': "chain_cache_ok e (sb\<lparr> configure_logging_cache := (configure_logging_cache sb)(c \<mapsto> r) \<rparr>)"
      using ok by (simp add: chain_cache_ok_def)
    show ?thesis using assms None rb Inr ok' cache s
      by (simp add: configure_logging_miss memo_sound_def)
  qed
qed

lemma memo_sound_reset: "memo_sound e st \<Longrightarrow> memo_sound e (reset_logging st)"
  by (simp add: memo_sound_def chain_cache_ok_def reset_logging_def)

lemma memo_sound_cached:
  "memo_sound e st \<Longrightarrow> configure_logging_cache st c = Some r \<Longrightarrow>
   NAME_TO_LEVEL e (lower (default_arg ''DEBUG'' (arg_log_level c))) \<noteq> None
   \<and> (\<not> default_arg True (arg_enable_pretty_log c) \<longrightarrow>
         (\<exists>o1. binary_output (default_arg None (arg_output c)) = Inr o1))"
  by (simp add: memo_sound_def)

text \<open>
  Claim C8. A call of \<^verbatim>\<open>configure_logging\<close> whose level name, lower-cased, is not a key
  of structlog's level table fails at once with the \<^verbatim>\<open>KeyError\<close> of the lookup, before
  anything is configured. In structured mode, an output stream whose mode has no
  \<^verbatim>\<open>b\<close> and that has no \<^verbatim>\<open>buffer\<close> attribute makes the call fail with \<^verbatim>\<open>ValueError\<close>
  (a stream without a \<^verbatim>\<open>mode\<close> attribute fails with \<^verbatim>\<open>AttributeError\<close>); structlog, the
  logging module and the warnings hook are left as they were and nothing is memoized.
\<close>

theorem configure_logging_errors:
  assumes "memo_sound e st"
  shows "(NAME_TO_LEVEL e (lower (default_arg ''DEBUG'' (arg_log_level c))) = None \<longrightarrow>
            configure_logging e c st
              = (Inl (KeyError (lower (default_arg ''DEBUG'' (arg_log_level c)))),
                 st\<lparr> configure_logging_runs := Suc (configure_logging_runs st) \<rparr>))
       \<and> (NAME_TO_LEVEL e (lower (default_arg ''DEBUG'' (arg_log_level c))) \<noteq> None
            \<and> default_arg True (arg_enable_pretty_log c) = False
            \<and> default_arg None (arg_output c) = Some s
            \<and> (stream_mode s = None \<or>
                (\<exists>m. stream_mode s = Some m \<and> CHR ''b'' \<notin> set m \<and> stream_buffer s = None)) \<longrightarrow>
            (\<exists>st'. configure_logging e c st
                     = (Inl (if stream_mode s = None then AttributeError ''mode''
                             else ValueError ''output needed to be a binary stream''), st')
                \<and> structlog_config st' = structlog_config st
                \<and> logging_config st' = logging_config st
                \<and> warnings_showwarning st' = warnings_showwarning st
                \<and> module_warnings_showwarning st' = module_warnings_showwarning st
                \<and> configure_logging_cache st' = configure_logging_cache st))"
proof (intro conjI impI)
  let ?st = "st\<lparr> configure_logging_runs := Suc (configure_logging_runs st) \<rparr>"
  assume a: "NAME_TO_LEVEL e (lower (default_arg ''DEBUG'' (arg_log_level c))) = None"
  have miss: "configure_logging_cache st c = None"
    using memo_sound_cached [OF assms, of c] a
    by (cases "configure_logging_cache st c") auto
  show "configure_logging e c st
          = (Inl (KeyError (lower (default_arg ''DEBUG'' (arg_log_level c)))), ?st)"
    using miss body_unknown_level [OF a, of ?st] by (rule configure_logging_miss_error)
next
  let ?st = "st\<lparr> configure_logging_runs := Suc (configure_logging_runs st) \<rparr>"
  let ?err = "if stream_mode s = None then AttributeError ''mode''
              else ValueError ''output needed to be a binary stream''"
  assume a: "NAME_TO_LEVEL e (lower (default_arg ''DEBUG'' (arg_log_level c))) \<noteq> None
            \<and> default_arg True (arg_enable_pretty_log c) = False
            \<and> default_arg None (arg_output c) = Some s
            \<and> (stream_mode s = None \<or>
                (\<exists>m. stream_mode s = Some m \<and> CHR ''b'' \<notin> set m \<and> stream_buffer s = None))"
  have bo: "binary_output (default_arg None (arg_output c)) = Inl ?err"
    using a by (auto simp: binary_output_def)
  have miss: "configure_logging_cache st c = None"
    using memo_sound_cached [OF assms, of c] a bo
    by (cases "configure_logging_cache st c") auto
  have ok0: "chain_cache_ok e ?st" using assms by (simp add: memo_sound_def chain_cache_ok_def)
  obtain lvl where lvl: "NAME_TO_LEVEL e (lower (default_arg ''DEBUG'' (arg_log_level c))) = Some lvl"
    using a by blast
  have named: "snd (snd (fst (logging_processors e False ?st)))
                 = snd (logging_processors_body (builtins_has_BaseExceptionGroup e) False)"
    using logging_processors_value [OF ok0, of False] by simp
  have ts: "named_get ''timestamper'' (snd (snd (fst (logging_processors e False ?st))))
              = Inr (MaybeTimeStamper ''iso'')"
    unfolding named by (simp add: named_get_def logging_processors_body_def Let_def)
  have body: "configure_logging_body e c ?st = (Inl ?err, snd (logging_processors e False ?st))"
    using a lvl bo ts by (simp add: configure_logging_body_def Let_def)
  have "configure_logging e c st = (Inl ?err, snd (logging_processors e False ?st))"
    using miss body by (rule configure_logging_miss_error)
  then show "\<exists>st'. configure_logging e c st = (Inl ?err, st')
                \<and> structlog_config st' = structlog_config st
                \<and> logging_config st' = logging_config st
                \<and> warnings_showwarning st' = warnings_showwarning st
                \<and> module_warnings_showwarning st' = module_warnings_showwarning st
                \<and> configure_logging_cache st' = configure_logging_cache st"
    by (simp add: frames)
qed

theorem configure_logging_errors_witness:
  "memo_sound plain_env (initial_state (OriginalShowwarning 0))
   \<and> NAME_TO_LEVEL plain_env (lower ''Verbose'') = None
   \<and> fst (configure_logging plain_env bogus_level_call (initial_state (OriginalShowwarning 0)))
       = Inl (KeyError ''verbose'')
   \<and> NAME_TO_LEVEL plain_env (lower ''DEBUG'') = Some 10
   \<and> fst (configure_logging plain_env text_stream_call (initial_state (OriginalShowwarning 0)))
       = Inl (ValueError ''output needed to be a binary stream'')"
  using configure_logging_errors [OF memo_sound_initial, of plain_env bogus_level_call
          "OriginalShowwarning 0" text_stream]
        configure_logging_errors [OF memo_sound_initial, of plain_env text_stream_call
          "OriginalShowwarning 0" text_stream]
        memo_sound_initial [of plain_env "OriginalShowwarning 0"]
  by (auto simp: bogus_level_call_def text_stream_call_def text_stream_def default_call_def
        default_arg_def plain_env_def structlog_NAME_TO_LEVEL_def lower_def lower_char_def)



text \<open>
  \<^verbatim>\<open>configure_logging(True)\<close> and \<^verbatim>\<open>configure_logging(enable_pretty_log=True)\<close> are two
  keys as well. A call with the level name \<^verbatim>\<open>exception\<close>, which structlog knows and the
  logging module does not, raises in \<^verbatim>\<open>dictConfig\<close> after structlog and the warnings hook
  were set, and is not memoized.
\<close>

lemma positional_and_keyword_are_two_keys:
  "valid_call keyword_true_call
   \<and> configure_logging_runs
        (snd (configure_logging plain_env keyword_true_call
          (snd (configure_logging plain_env positional_true_call
             (initial_state (OriginalShowwarning 0)))))) = 2"
  by (simp add: eval_defs valid_call_def parameter_names_def given_parameters_def)

lemma exception_level_raises_in_dictConfig:
  "valid_call exception_level_call
   \<and> fst (configure_logging plain_env exception_level_call (initial_state (OriginalShowwarning 0)))
       = Inl (ValueError ''Unable to configure handler default'')
   \<and> configure_logging_cache
        (snd (configure_logging plain_env exception_level_call
           (initial_state (OriginalShowwarning 0)))) exception_level_call = None
   \<and> warnings_showwarning
        (snd (configure_logging plain_env exception_level_call
           (initial_state (OriginalShowwarning 0)))) = Some Module_showwarning"
  by (simp add: eval_defs valid_call_def parameter_names_def given_parameters_def)

text \<open>
  Claim C5, amended. With \<^verbatim>\<open>PYTEST_CURRENT_TEST\<close> in the environment, every call of
  \<^verbatim>\<open>configure_logging\<close> whose body runs and returns gives structlog
  \<^verbatim>\<open>cache_logger_on_first_use = False\<close>. The memo table of \<^verbatim>\<open>configure_logging\<close> itself
  is not switched off: a repeated call with equal arguments still returns the stored
  result without running the body.
\<close>

theorem pytest_forces_uncached_loggers:
  "(''PYTEST_CURRENT_TEST'' \<in> set (map fst (environ e))
      \<and> configure_logging_cache st c = None
      \<and> configure_logging e c st = (Inr r, st') \<longrightarrow>
        (\<exists>cfg. structlog_config st' = Some cfg \<and> \<not> sc_cache_logger_on_first_use cfg))
 \<and> (''PYTEST_CURRENT_TEST'' \<in> set (map fst (environ e))
      \<and> configure_logging e c st = (Inr r, st') \<longrightarrow>
        configure_logging e c st' = (Inr r, st'))"
proof (intro conjI impI)
  assume a: "''PYTEST_CURRENT_TEST'' \<in> set (map fst (environ e))
      \<and> configure_logging_cache st c = None
      \<and> configure_logging e c st = (Inr r, st')"
  obtain sb where sb: "configure_logging_body e c (st\<lparr> configure_logging_runs := Suc (configure_logging_runs st) \<rparr>)
             = (Inr r, sb)"
    and st': "st' = sb\<lparr> configure_logging_cache := (configure_logging_cache sb)(c \<mapsto> r) \<rparr>"
    using configure_logging_miss_success a by blast
  obtain cfg where "structlog_config sb = Some cfg"
    and "sc_cache_logger_on_first_use cfg
               = (if ''PYTEST_CURRENT_TEST'' \<in> set (map fst (environ e)) then False
                  else default_arg True (arg_cache_logger_on_first_use c))"
    using body_success [OF sb] by blast
  then show "\<exists>cfg. structlog_config st' = Some cfg \<and> \<not> sc_cache_logger_on_first_use cfg"
    using a st' by simp
next
  assume a: "''PYTEST_CURRENT_TEST'' \<in> set (map fst (environ e))
      \<and> configure_logging e c st = (Inr r, st')"
  then have "configure_logging_cache st' c = Some r"
    using configure_logging_success_cached by blast
  then show "configure_logging e c st' = (Inr r, st')" by (rule configure_logging_hit)
qed

theorem pytest_forces_uncached_loggers_witness:
  "''PYTEST_CURRENT_TEST'' \<in> set (map fst (environ pytest_env))
   \<and> configure_logging_cache (initial_state (OriginalShowwarning 0)) default_call = None
   \<and> configure_logging pytest_env default_call (initial_state (OriginalShowwarning 0))
       = (Inr (), snd (configure_logging pytest_env default_call (initial_state (OriginalShowwarning 0))))
   \<and> (\<exists>cfg. structlog_config (snd (configure_logging pytest_env default_call
                (initial_state (OriginalShowwarning 0)))) = Some cfg
          \<and> \<not> sc_cache_logger_on_first_use cfg)"
  using pytest_forces_uncached_loggers [of pytest_env "initial_state (OriginalShowwarning 0)"
          default_call "()"
          "snd (configure_logging pytest_env default_call (initial_state (OriginalShowwarning 0)))"]
        first_call_pytest
  by (simp add: prod_eq_iff) (simp add: pytest_env_def initial_state_def)

text \<open>
  Claim C5 as stated fails: under \<^verbatim>\<open>PYTEST_CURRENT_TEST\<close> the second of two equal calls
  is answered from the memo table; the body has run once, not twice.
\<close>

theorem pytest_memoization_counterexample:
  "''PYTEST_CURRENT_TEST'' \<in> set (map fst (environ pytest_env))
   \<and> fst (configure_logging pytest_env default_call (initial_state (OriginalShowwarning 0))) = Inr ()
   \<and> configure_logging_runs
        (snd (configure_logging pytest_env default_call (initial_state (OriginalShowwarning 0)))) = 1
   \<and> fst (configure_logging pytest_env default_call
        (snd (configure_logging pytest_env default_call (initial_state (OriginalShowwarning 0))))) = Inr ()
   \<and> configure_logging_runs
        (snd (configure_logging pytest_env default_call
          (snd (configure_logging pytest_env default_call (initial_state (OriginalShowwarning 0)))))) = 1"
  by (simp add: eval_defs)

text \<open>
  Claim C6 at a fresh process: \<^verbatim>\<open>reset_logging\<close> called before any
  \<^verbatim>\<open>configure_logging\<close> assigns the still unset \<^verbatim>\<open>_warnings_showwarning\<close>, that is
  \<^verbatim>\<open>None\<close>, to \<^verbatim>\<open>warnings.showwarning\<close>; the original function is lost and the call
  is not a no-op.
\<close>

theorem reset_logging_without_configure:
  "warnings_showwarning (initial_state (OriginalShowwarning 0)) = Some (OriginalShowwarning 0)
   \<and> warnings_showwarning (reset_logging (initial_state (OriginalShowwarning 0))) = None
   \<and> reset_logging (initial_state (OriginalShowwarning 0)) \<noteq> initial_state (OriginalShowwarning 0)"
proof -
  have a: "warnings_showwarning (initial_state (OriginalShowwarning 0)) = Some (OriginalShowwarning 0)"
    by (simp add: initial_state_def)
  have b: "warnings_showwarning (reset_logging (initial_state (OriginalShowwarning 0))) = None"
    by (simp add: initial_state_def reset_logging_def)
  from a b show ?thesis by auto
qed

lemma reset_logging_idem: "reset_logging (reset_logging st) = reset_logging st"
  by (simp add: reset_logging_def)

lemma configure_logging_showwarning_kept:
  assumes "module_warnings_showwarning st \<noteq> None"
  shows "module_warnings_showwarning (snd (configure_logging e c st)) = module_warnings_showwarning st
       \<and> warnings_showwarning (snd (configure_logging e c st)) = warnings_showwarning st"
proof (cases "configure_logging_cache st c")
  case (Some a)
  then show ?thesis by (simp add: configure_logging_def)
next
  case None
  let ?st = "st\<lparr> configure_logging_runs := Suc (configure_logging_runs st) \<rparr>"
  obtain rb sb where rb: "configure_logging_body e c ?st = (rb, sb)"
    by (cases "configure_logging_body e c ?st")
  have "module_warnings_showwarning ?st \<noteq> None" using assms by simp
  then have "module_warnings_showwarning sb = module_warnings_showwarning st
           \<and> warnings_showwarning sb = warnings_showwarning st"
    using body_showwarning_kept [of ?st e c] rb by simp
  then show ?thesis using None rb
    by (cases rb) (simp_all add: configure_logging_miss)
qed

lemma configure_logging_first_install:
  assumes "module_warnings_showwarning st = None"
      and "configure_logging_cache st c = None"
      and "configure_logging e c st = (Inr r, st')"
  shows "module_warnings_showwarning st' = warnings_showwarning st
       \<and> warnings_showwarning st' = Some Module_showwarning"
proof -
  obtain sb where sb: "configure_logging_body e c (st\<lparr> configure_logging_runs := Suc (configure_logging_runs st) \<rparr>)
             = (Inr r, sb)"
    and st': "st' = sb\<lparr> configure_logging_cache := (configure_logging_cache sb)(c \<mapsto> r) \<rparr>"
    using configure_logging_miss_success assms(2,3) by blast
  show ?thesis using body_success [OF sb] assms(1) st' by simp
qed

lemma reset_after_configure_restores:
  assumes "module_warnings_showwarning st = None"
      and "configure_logging_cache st c = None"
      and "configure_logging e c st = (Inr r, st')"
  shows "warnings_showwarning (reset_logging st') = warnings_showwarning st
       \<and> configure_logging_cache (reset_logging st') = Map.empty"
  using configure_logging_first_install [OF assms] by (simp add: reset_logging_def)

text \<open>
  Claim C10. In a run configure, reset, configure from a process whose
  \<^verbatim>\<open>_warnings_showwarning\<close> is unset, the reset leaves \<^verbatim>\<open>_warnings_showwarning\<close> holding
  the original function, so the second configure, although its body runs again, neither
  saves a handler nor installs \<^verbatim>\<open>_showwarning\<close>: \<^verbatim>\<open>warnings.showwarning\<close> is the original
  function after it returns.
\<close>

theorem showwarning_not_reinstalled:
  assumes "module_warnings_showwarning st0 = None"
      and "warnings_showwarning st0 = Some h"
      and "configure_logging_cache st0 c1 = None"
      and "configure_logging e1 c1 st0 = (Inr r1, st1)"
      and "configure_logging e2 c2 (reset_logging st1) = (r2, st3)"
  shows "warnings_showwarning st1 = Some Module_showwarning
       \<and> module_warnings_showwarning (reset_logging st1) = Some h
       \<and> warnings_showwarning (reset_logging st1) = Some h
       \<and> configure_logging_runs st3 = Suc (configure_logging_runs st1)
       \<and> module_warnings_showwarning st3 = Some h
       \<and> warnings_showwarning st3 = Some h"
proof -
  have i: "module_warnings_showwarning st1 = Some h \<and> warnings_showwarning st1 = Some Module_showwarning"
    using configure_logging_first_install [OF assms(1,3,4)] assms(2) by simp
  have r: "module_warnings_showwarning (reset_logging st1) = Some h
         \<and> warnings_showwarning (reset_logging st1) = Some h"
    using i by (simp add: reset_logging_def)
  have ne: "module_warnings_showwarning (reset_logging st1) \<noteq> None" using r by simp
  have k: "module_warnings_showwarning st3 = Some h \<and> warnings_showwarning st3 = Some h"
    using configure_logging_showwarning_kept [OF ne, of e2 c2] assms(5) r by simp
  have "configure_logging_cache (reset_logging st1) c2 = None" by (simp add: reset_logging_def)
  then have runs: "configure_logging_runs st3 = Suc (configure_logging_runs st1)"
    using configure_logging_runs_miss [of "reset_logging st1" c2 e2] assms(5)
    by (simp add: reset_logging_def)
  show ?thesis using i r k runs by simp
qed

theorem showwarning_not_reinstalled_witness:
  "module_warnings_showwarning (initial_state (OriginalShowwarning 0)) = None
   \<and> warnings_showwarning (initial_state (OriginalShowwarning 0)) = Some (OriginalShowwarning 0)
   \<and> fst (configure_logging plain_env default_call (initial_state (OriginalShowwarning 0))) = Inr ()
   \<and> fst (configure_logging plain_env default_call
        (reset_logging (snd (configure_logging plain_env default_call
           (initial_state (OriginalShowwarning 0)))))) = Inr ()
   \<and> warnings_showwarning (snd (configure_logging plain_env default_call
        (reset_logging (snd (configure_logging plain_env default_call
           (initial_state (OriginalShowwarning 0))))))) = Some (OriginalShowwarning 0)"
proof -
  let ?s0 = "initial_state (OriginalShowwarning 0)"
  let ?s1 = "snd (configure_logging plain_env default_call ?s0)"
  let ?r2 = "fst (configure_logging plain_env default_call (reset_logging ?s1))"
  let ?s3 = "snd (configure_logging plain_env default_call (reset_logging ?s1))"
  have a1: "module_warnings_showwarning ?s0 = None" by (simp add: initial_state_def)
  have a2: "warnings_showwarning ?s0 = Some (OriginalShowwarning 0)" by (simp add: initial_state_def)
  have a3: "configure_logging_cache ?s0 default_call = None" by (simp add: initial_state_def)
  have a4: "configure_logging plain_env default_call ?s0 = (Inr (), ?s1)"
    using first_call_plain by (simp add: prod_eq_iff)
  have a5: "configure_logging plain_env default_call (reset_logging ?s1) = (?r2, ?s3)" by simp
  have r2: "?r2 = Inr ()" by (simp add: eval_defs)
  show ?thesis
    using showwarning_not_reinstalled [OF a1 a2 a3 a4 a5] a1 a2 first_call_plain r2 by simp
qed

section \<open>The binary stream handler: properties\<close>

lemma utf8_encode_total: "\<exists>bs. utf8_encode BackslashReplace msg = Inr bs"
  by (induction msg) auto

lemma utf8_encode_no_error: "utf8_encode BackslashReplace msg \<noteq> Inl e"
  using utf8_encode_total [of msg] by auto

lemma emit_try_raised:
  "raised_in_try format rec h e \<Longrightarrow> fst (emit_try format rec h) = Some e"
  by (auto simp: raised_in_try_def emit_try_def stream_write_def stream_flush_def Let_def
        utf8_encode_no_error split: sum.splits option.splits)

lemma emit_try_handled_errors:
  "hs_handled_errors (snd (emit_try format rec h)) = hs_handled_errors h"
  by (auto simp: emit_try_def stream_write_def stream_flush_def Let_def
       split: sum.splits option.splits)

text \<open>
  Claim C7. Encoding with \<^verbatim>\<open>backslashreplace\<close> never raises. On a working stream
  \<^verbatim>\<open>emit\<close> returns, and what reaches the stream is the encoded message followed by one
  newline byte, written and flushed. A \<^verbatim>\<open>RecursionError\<close> raised by \<^verbatim>\<open>format\<close>, \<^verbatim>\<open>write\<close> or
  \<^verbatim>\<open>flush\<close> propagates and \<^verbatim>\<open>handleError\<close> is not called; any other \<^verbatim>\<open>Exception\<close> raised
  there is passed to \<^verbatim>\<open>handleError\<close> and \<^verbatim>\<open>emit\<close> returns; no such exception ever
  propagates.
\<close>

theorem emit_spec:
  "(\<exists>bs. utf8_encode BackslashReplace msg = Inr bs
       \<and> (format rec = Inr msg \<and> bs_write_raises (hs_stream h) = None
            \<and> bs_flush_raises (hs_stream h) = None \<longrightarrow>
          emit format rec h
            = (Inr (), h\<lparr> hs_stream := (hs_stream h)
                 \<lparr> bs_delivered := bs_delivered (hs_stream h) @ bs_pending (hs_stream h) @ bs @ [10],
                   bs_pending := [] \<rparr> \<rparr>)))
 \<and> (raised_in_try format rec h RecursionError \<longrightarrow>
       fst (emit format rec h) = Inl RecursionError
     \<and> hs_handled_errors (snd (emit format rec h)) = hs_handled_errors h)
 \<and> (raised_in_try format rec h (OtherException n) \<longrightarrow>
       fst (emit format rec h) = Inr ()
     \<and> hs_handled_errors (snd (emit format rec h)) = Suc (hs_handled_errors h))
 \<and> fst (emit format rec h) \<noteq> Inl (OtherException n)"
proof (intro conjI impI)
  obtain bs where bs: "utf8_encode BackslashReplace msg = Inr bs"
    using utf8_encode_total by blast
  have "format rec = Inr msg \<and> bs_write_raises (hs_stream h) = None
            \<and> bs_flush_raises (hs_stream h) = None \<longrightarrow>
          emit format rec h
            = (Inr (), h\<lparr> hs_stream := (hs_stream h)
                 \<lparr> bs_delivered := bs_delivered (hs_stream h) @ bs_pending (hs_stream h) @ bs @ [10],
                   bs_pending := [] \<rparr> \<rparr>)"
    using bs by (simp add: emit_def emit_try_def stream_write_def stream_flush_def Let_def)
  with bs show "\<exists>bs. utf8_encode BackslashReplace msg = Inr bs
       \<and> (format rec = Inr msg \<and> bs_write_raises (hs_stream h) = None
            \<and> bs_flush_raises (hs_stream h) = None \<longrightarrow>
          emit format rec h
            = (Inr (), h\<lparr> hs_stream := (hs_stream h)
                 \<lparr> bs_delivered := bs_delivered (hs_stream h) @ bs_pending (hs_stream h) @ bs @ [10],
                   bs_pending := [] \<rparr> \<rparr>))"
    by blast
next
  assume a: "raised_in_try format rec h RecursionError"
  obtain h' where t: "emit_try format rec h = (Some RecursionError, h')"
    using emit_try_raised [OF a] by (cases "emit_try format rec h") auto
  have "hs_handled_errors h' = hs_handled_errors h"
    using emit_try_handled_errors [of format rec h] t by simp
  then show "fst (emit format rec h) = Inl RecursionError"
    and "hs_handled_errors (snd (emit format rec h)) = hs_handled_errors h"
    using t by (simp_all add: emit_def)
next
  assume a: "raised_in_try format rec h (OtherException n)"
  obtain h' where t: "emit_try format rec h = (Some (OtherException n), h')"
    using emit_try_raised [OF a] by (cases "emit_try format rec h") auto
  have "hs_handled_errors h' = hs_handled_errors h"
    using emit_try_handled_errors [of format rec h] t by simp
  then show "fst (emit format rec h) = Inr ()"
    and "hs_handled_errors (snd (emit format rec h)) = Suc (hs_handled_errors h)"
    using t by (simp_all add: emit_def handleError_def)
next
  show "fst (emit format rec h) \<noteq> Inl (OtherException n)"
    by (auto simp: emit_def split: prod.splits option.splits raised.splits)
qed

lemma encode_example:
  "utf8_encode BackslashReplace [104, 0xD800, 0xE9] = Inr [104, 92, 117, 100, 56, 48, 48, 195, 169]"
  by (simp add: is_surrogate_def backslashreplace_def utf8_char_def hex_digit_def hex2_def hex4_def)

lemma strict_example:
  "utf8_encode Strict [104, 0xD800] = Inl (OtherException ''UnicodeEncodeError'')"
  by (simp add: is_surrogate_def)


theorem emit_spec_witness:
  "emit (\<lambda>r. Inr r) [104, 0xD800, 0xE9] healthy_handler
     = (Inr (), healthy_handler\<lparr> hs_stream := (hs_stream healthy_handler)
          \<lparr> bs_delivered := [104, 92, 117, 100, 56, 48, 48, 195, 169, 10], bs_pending := [] \<rparr> \<rparr>)
   \<and> raised_in_try (\<lambda>r. Inl RecursionError) [104 :: nat] healthy_handler RecursionError
   \<and> fst (emit (\<lambda>r. Inl RecursionError) [104 :: nat] healthy_handler) = Inl RecursionError
   \<and> raised_in_try (\<lambda>r. Inr r) [104] (broken_handler (OtherException ''BrokenPipeError''))
         (OtherException ''BrokenPipeError'')
   \<and> fst (emit (\<lambda>r. Inr r) [104] (broken_handler (OtherException ''BrokenPipeError''))) = Inr ()
   \<and> hs_handled_errors (snd (emit (\<lambda>r. Inr r) [104]
         (broken_handler (OtherException ''BrokenPipeError'')))) = 1"
proof -
  let ?M = "[104, 0xD800, 0xE9] :: nat list"
  let ?B = "broken_handler (OtherException ''BrokenPipeError'')"
  have w1: "raised_in_try (\<lambda>r. Inl RecursionError) [104 :: nat] healthy_handler RecursionError"
    by (simp add: raised_in_try_def)
  have w2: "raised_in_try (\<lambda>r. Inr r) [104] ?B (OtherException ''BrokenPipeError'')"
    by (simp add: raised_in_try_def broken_handler_def)
  have h: "bs_write_raises (hs_stream healthy_handler) = None"
          "bs_flush_raises (hs_stream healthy_handler) = None"
          "bs_pending (hs_stream healthy_handler) = []"
          "bs_delivered (hs_stream healthy_handler) = []"
    by (simp_all add: healthy_handler_def)
  have hb: "hs_handled_errors ?B = 0" by (simp add: broken_handler_def)
  obtain bs where bs: "utf8_encode BackslashReplace ?M = Inr bs"
    and imp: "(\<lambda>r. Inr r) ?M = Inr ?M \<and> bs_write_raises (hs_stream healthy_handler) = None
            \<and> bs_flush_raises (hs_stream healthy_handler) = None \<longrightarrow>
          emit (\<lambda>r. Inr r) ?M healthy_handler
            = (Inr (), healthy_handler\<lparr> hs_stream := (hs_stream healthy_handler)
                 \<lparr> bs_delivered := bs_delivered (hs_stream healthy_handler)
                                      @ bs_pending (hs_stream healthy_handler) @ bs @ [10],
                   bs_pending := [] \<rparr> \<rparr>)"
    using emit_spec [of ?M "\<lambda>r. Inr r" ?M healthy_handler "''x''"] by blast
  have bs': "bs = [104, 92, 117, 100, 56, 48, 48, 195, 169]"
    using bs encode_example by simp
  have c1: "emit (\<lambda>r. Inr r) ?M healthy_handler
     = (Inr (), healthy_handler\<lparr> hs_stream := (hs_stream healthy_handler)
          \<lparr> bs_delivered := [104, 92, 117, 100, 56, 48, 48, 195, 169, 10], bs_pending := [] \<rparr> \<rparr>)"
    using imp h unfolding bs' by simp
  have c2: "fst (emit (\<lambda>r. Inl RecursionError) [104 :: nat] healthy_handler) = Inl RecursionError"
    using emit_spec [of "[104]" "\<lambda>r. Inl RecursionError" "[104 :: nat]" healthy_handler "''x''"] w1
    by blast
  have c3: "fst (emit (\<lambda>r. Inr r) [104] ?B) = Inr ()
          \<and> hs_handled_errors (snd (emit (\<lambda>r. Inr r) [104] ?B)) = Suc (hs_handled_errors ?B)"
    using emit_spec [of "[104]" "\<lambda>r. Inr r" "[104]" ?B "''BrokenPipeError''"] w2
    by blast
  show ?thesis using c1 w1 c2 w2 c3 hb by simp
qed

section \<open>Log files: properties\<close>

lemmas fs_eval = init_log_file_def prepare_log_folder_def path_mkdir_def os_mkdir_def
  create_entry_def path_touch_def os_utime_def os_open_create_def path_is_dir_def locate_def
  parse_path_def path_join_def parent_def reversed_parents_def int_base8_def octal_digit_def
  strip_def is_space_def logs_conf_def logs_fs_def readonly_fs_def Let_def upt_rec

lemma int_base8_examples:
  "int_base8 ''0o664'' = Some 436" "int_base8 ''0o775'' = Some 509"
  "int_base8 ''6_6_4'' = Some 436" "int_base8 '' 664 '' = Some 436"
  "int_base8 ''+0o_7'' = Some 7" "int_base8 ''-17'' = Some (- 15)"
  "int_base8 ''0o'' = None" "int_base8 ''7__7'' = None" "int_base8 ''8'' = None"
  by (simp_all add: int_base8_def octal_digit_def strip_def is_space_def Let_def)

text \<open>
  The example of the specification: with base folder \<^verbatim>\<open>/logs\<close> and \<^verbatim>\<open>/logs/a\<close> in place,
  \<^verbatim>\<open>init_log_file("a/b/c.log")\<close> leaves \<^verbatim>\<open>/logs/a\<close> as it is and creates \<^verbatim>\<open>/logs/a/b\<close>
  with the folder mode, then \<^verbatim>\<open>/logs/a/b/c.log\<close> with the file mode.
\<close>

lemma init_log_file_example:
  "fst (init_log_file logs_conf ''a/b/c.log'' \<lparr> files = logs_fs, warnings_logged = [] \<rparr>)
     = Inr (Path True [''logs'', ''a'', ''b'', ''c.log''])
   \<and> created (files (snd (init_log_file logs_conf ''a/b/c.log''
         \<lparr> files = logs_fs, warnings_logged = [] \<rparr>)))
       = [[''logs'', ''a'', ''b''], [''logs'', ''a'', ''b'', ''c.log'']]
   \<and> entries (files (snd (init_log_file logs_conf ''a/b/c.log''
         \<lparr> files = logs_fs, warnings_logged = [] \<rparr>))) [''logs'', ''a''] = Some (Dir 448)
   \<and> entries (files (snd (init_log_file logs_conf ''a/b/c.log''
         \<lparr> files = logs_fs, warnings_logged = [] \<rparr>))) [''logs'', ''a'', ''b''] = Some (Dir 509)
   \<and> entries (files (snd (init_log_file logs_conf ''a/b/c.log''
         \<lparr> files = logs_fs, warnings_logged = [] \<rparr>))) [''logs'', ''a'', ''b'', ''c.log'']
       = Some (File 436)
   \<and> warnings_logged (snd (init_log_file logs_conf ''a/b/c.log''
         \<lparr> files = logs_fs, warnings_logged = [] \<rparr>)) = []"
  by (simp add: fs_eval)

text \<open>A \<^verbatim>\<open>..\<close> in the relative path is resolved by the operating system: the file lands in
  \<^verbatim>\<open>/logs\<close>, and the path returned still spells the \<^verbatim>\<open>..\<close>.\<close>

lemma init_log_file_dotdot:
  "fst (init_log_file logs_conf ''a/../c.log'' \<lparr> files = logs_fs, warnings_logged = [] \<rparr>)
     = Inr (Path True [''logs'', ''a'', ''..'', ''c.log''])
   \<and> created (files (snd (init_log_file logs_conf ''a/../c.log''
         \<lparr> files = logs_fs, warnings_logged = [] \<rparr>))) = [[''logs'', ''c.log'']]"
  by (simp add: fs_eval)

text \<open>A directory that cannot be made ends the call with the error.\<close>

lemma init_log_file_directory_failure:
  "fst (init_log_file logs_conf ''a/c.log'' \<lparr> files = readonly_fs, warnings_logged = [] \<rparr>)
     = Inl (OSError PermissionError)"
  by (simp add: fs_eval)

text \<open>
  Claim C9 where the file cannot be created. The process has no write access to
  \<^verbatim>\<open>/logs\<close>, which exists; \<^verbatim>\<open>init_log_file("c.log")\<close> finds the directories in place, the
  \<^verbatim>\<open>touch\<close> of \<^verbatim>\<open>/logs/c.log\<close> raises \<^verbatim>\<open>PermissionError\<close> when it creates the file, and
  the call logs a warning and returns the path of a file that does not exist: the
  failure to create the file is swallowed.
\<close>

theorem init_log_file_swallows_creation_failure:
  "os_open_create (Path True [''logs'', ''c.log'']) 436 readonly_fs = Inl PermissionError
   \<and> path_touch (Path True [''logs'', ''c.log'']) 436 readonly_fs = Inl PermissionError
   \<and> fst (init_log_file logs_conf ''c.log'' \<lparr> files = readonly_fs, warnings_logged = [] \<rparr>)
       = Inr (Path True [''logs'', ''c.log''])
   \<and> warnings_logged (snd (init_log_file logs_conf ''c.log''
         \<lparr> files = readonly_fs, warnings_logged = [] \<rparr>)) = [PermissionError]
   \<and> entries (files (snd (init_log_file logs_conf ''c.log''
         \<lparr> files = readonly_fs, warnings_logged = [] \<rparr>))) [''logs'', ''c.log''] = None"
  by (simp add: fs_eval)

end
